theory Spec2Isabelle
  imports Complex_Main
begin

section \<open>Task orchestrator (task_manager.py)\<close>

text \<open>
  The configuration object of config.py: the fields read by the code modelled here.
  Each one is a string that defaults to the empty string when its environment variable
  is not set, except \<open>use_simple_analyzer\<close>, which is a boolean.
\<close>

record config =
  openai_api_key :: string
  todoist_api_key :: string
  notion_api_key :: string
  use_simple_analyzer :: bool

text \<open>
  The concrete manager classes. \<open>TodoistManager k\<close> is an instance built with the API
  key \<open>k\<close>; \<open>NotionManager k d\<close> is an instance built with key \<open>k\<close> and database id
  \<open>d\<close> (\<open>None\<close> is the constructor's default).
\<close>

datatype backend = TodoistManager string | NotionManager string "string option"

fun backend_class_name :: "backend \<Rightarrow> string" where
  "backend_class_name (TodoistManager k) = ''TodoistManager''"
| "backend_class_name (NotionManager k d) = ''NotionManager''"

text \<open>
  \<open>TaskOrchestrator.__init__\<close>. A Python string is truthy when it is not empty. The
  branch for the Notion key holds only \<open>pass\<close>: the call that would append a
  \<open>NotionManager\<close> is commented out in the source.
\<close>

definition orchestrator_init :: "config \<Rightarrow> backend list" where
  "orchestrator_init cfg =
     (let managers = [];
          managers = (if todoist_api_key cfg \<noteq> []
                      then managers @ [TodoistManager (todoist_api_key cfg)]
                      else managers);
          managers = (if notion_api_key cfg \<noteq> [] then managers else managers)
      in managers)"

text \<open>
  A registered manager as \<open>TaskOrchestrator.create_task\<close> sees it: the name of its class
  and its \<open>create_task\<close> method. The method either returns the backend's answer
  (\<open>Inr\<close>) or raises an \<open>Exception\<close>, of which the orchestrator keeps \<open>str(e)\<close>
  (\<open>Inl\<close>). The type \<open>'t\<close> is the task dictionary, \<open>'d\<close> the backend's answer.
\<close>

record ('t, 'd) manager =
  class_name :: string
  manager_create_task :: "'t \<Rightarrow> string + 'd"

text \<open>
  One entry of the result list: the dictionary with keys \<open>platform\<close>, \<open>success\<close> and
  either \<open>data\<close> or \<open>error\<close>.
\<close>

record 'd outcome =
  platform :: string
  success :: bool
  data :: "'d option"
  error :: "string option"

text \<open>The body of the \<open>for\<close> loop: the \<open>try\<close> block and its \<open>except Exception\<close>.\<close>

definition attempt :: "('t, 'd) manager \<Rightarrow> 't \<Rightarrow> 'd outcome" where
  "attempt m task_data =
     (case manager_create_task m task_data of
        Inr result \<Rightarrow>
          \<lparr>platform = class_name m, success = True, data = Some result, error = None\<rparr>
      | Inl e \<Rightarrow>
          \<lparr>platform = class_name m, success = False, data = None, error = Some e\<rparr>)"

text \<open>The loop over \<open>self.managers\<close>, appending to \<open>results\<close>.\<close>

fun create_task_loop :: "('t, 'd) manager list \<Rightarrow> 't \<Rightarrow> 'd outcome list \<Rightarrow> 'd outcome list" where
  "create_task_loop [] task_data results = results"
| "create_task_loop (m # ms) task_data results =
     create_task_loop ms task_data (results @ [attempt m task_data])"

definition create_task :: "('t, 'd) manager list \<Rightarrow> 't \<Rightarrow> 'd outcome list" where
  "create_task managers task_data = create_task_loop managers task_data []"

section \<open>Python strings\<close>

text \<open>
  A Python \<open>str\<close> is a sequence of code points. The model covers the code points below
  256 (ASCII and the Latin-1 supplement): a \<^typ>\<open>char\<close> is the code point of that
  number, so \<open>length\<close> counts what Python's \<open>len\<close> counts.
\<close>

text \<open>
  \<open>str.lower\<close> on this range: the letters A to Z and the Latin-1 capitals (192 to 222,
  without the multiplication sign 215) move up by 32; every other code point stays.
\<close>

definition is_upper :: "char \<Rightarrow> bool" where
  "is_upper c =
     (let n = (of_char c :: nat)
      in (65 \<le> n \<and> n \<le> 90) \<or> (192 \<le> n \<and> n \<le> 222 \<and> n \<noteq> 215))"

definition char_lower :: "char \<Rightarrow> char" where
  "char_lower c = (if is_upper c then char_of ((of_char c :: nat) + 32) else c)"

definition lower :: "string \<Rightarrow> string" where
  "lower s = map char_lower s"

text \<open>
  The characters \<open>str.strip\<close> removes (those for which \<open>str.isspace\<close> holds): tab to
  carriage return, the four separators 28 to 31, the space, NEL (133) and the no-break
  space (160).
\<close>

definition is_space :: "char \<Rightarrow> bool" where
  "is_space c =
     (let n = (of_char c :: nat)
      in (9 \<le> n \<and> n \<le> 13) \<or> (28 \<le> n \<and> n \<le> 32) \<or> n = 133 \<or> n = 160)"

definition lstrip :: "string \<Rightarrow> string" where
  "lstrip s = dropWhile is_space s"

definition rstrip :: "string \<Rightarrow> string" where
  "rstrip s = rev (dropWhile is_space (rev s))"

definition strip :: "string \<Rightarrow> string" where
  "strip s = rstrip (lstrip s)"

text \<open>\<open>s.startswith(p)\<close>, \<open>s.endswith(p)\<close> and the substring test \<open>sub in s\<close>.\<close>

fun startswith :: "string \<Rightarrow> string \<Rightarrow> bool" where
  "startswith s [] = True"
| "startswith [] (p # ps) = False"
| "startswith (c # cs) (p # ps) = (c = p \<and> startswith cs ps)"

definition endswith :: "string \<Rightarrow> string \<Rightarrow> bool" where
  "endswith s p = startswith (rev s) (rev p)"

fun contains :: "string \<Rightarrow> string \<Rightarrow> bool" where
  "contains [] sub = (sub = [])"
| "contains (c # cs) sub = (startswith (c # cs) sub \<or> contains cs sub)"

text \<open>\<open>any(w in s for w in ws)\<close>.\<close>

definition contains_any :: "string \<Rightarrow> string list \<Rightarrow> bool" where
  "contains_any s ws = list_ex (\<lambda>w. contains s w) ws"

text \<open>
  \<open>s.split('.')[0]\<close>: the part before the first full stop, the whole string when it has
  none.
\<close>

definition split_dot_first :: "string \<Rightarrow> string" where
  "split_dot_first s = takeWhile (\<lambda>c. c \<noteq> CHR ''.'') s"

text \<open>
  \<open>s.rsplit(' ', 1)[0]\<close>: the part before the last space, the whole string when it has no
  space.
\<close>

definition rsplit_space_first :: "string \<Rightarrow> string" where
  "rsplit_space_first s =
     (if CHR '' '' \<in> set s
      then rev (tl (dropWhile (\<lambda>c. c \<noteq> CHR '' '') (rev s)))
      else s)"

text \<open>
  The characters matched by \<open>\d\<close> and by \<open>\w\<close> in a pattern over \<open>str\<close>. On the range
  modelled the decimal digits are 0 to 9; the word characters are the digits, the
  letters, the underscore, and in the Latin-1 supplement the ordinal indicators (170,
  186), the superscript digits (178, 179, 185), the micro sign (181), the fractions
  (188 to 190) and the letters 192 to 255 without the multiplication and division
  signs (215, 247).
\<close>

definition is_digit :: "char \<Rightarrow> bool" where
  "is_digit c = (let n = (of_char c :: nat) in 48 \<le> n \<and> n \<le> 57)"

definition is_word_char :: "char \<Rightarrow> bool" where
  "is_word_char c =
     (let n = (of_char c :: nat)
      in (48 \<le> n \<and> n \<le> 57) \<or> (65 \<le> n \<and> n \<le> 90) \<or> n = 95 \<or> (97 \<le> n \<and> n \<le> 122)
         \<or> n = 170 \<or> n = 178 \<or> n = 179 \<or> n = 181 \<or> n = 185 \<or> n = 186
         \<or> (188 \<le> n \<and> n \<le> 190) \<or> (192 \<le> n \<and> n \<noteq> 215 \<and> n \<noteq> 247))"

text \<open>\<open>int(ds)\<close> for a string of decimal digits.\<close>

definition int_of_digits :: "string \<Rightarrow> int" where
  "int_of_digits ds = foldl (\<lambda>a c. 10 * a + (int (of_char c) - 48)) 0 ds"

text \<open>
  \<open>re.search\<close> for a pattern \<open>\bLIT\b\<close> with a literal \<open>LIT\<close>. The assertion \<open>\b\<close> holds
  between two positions when exactly one of the characters around it is a word
  character; beyond either end of the string there is no word character. \<open>prev\<close> tells
  whether the character before the current position is a word character.
\<close>

definition word_boundary :: "bool \<Rightarrow> string \<Rightarrow> bool" where
  "word_boundary prev s = (prev \<noteq> (case s of [] \<Rightarrow> False | c # cs \<Rightarrow> is_word_char c))"

definition match_word_at :: "bool \<Rightarrow> string \<Rightarrow> string \<Rightarrow> bool" where
  "match_word_at prev lit s =
     (word_boundary prev s \<and> startswith s lit
      \<and> word_boundary (if lit = [] then prev else is_word_char (last lit)) (drop (length lit) s))"

fun search_word_from :: "bool \<Rightarrow> string \<Rightarrow> string \<Rightarrow> bool" where
  "search_word_from prev lit [] = match_word_at prev lit []"
| "search_word_from prev lit (c # cs) =
     (match_word_at prev lit (c # cs) \<or> search_word_from (is_word_char c) lit cs)"

definition search_word :: "string \<Rightarrow> string \<Rightarrow> bool" where
  "search_word lit s = search_word_from False lit s"

section \<open>Dates and times (the datetime module)\<close>

text \<open>
  A naive \<open>datetime\<close>: the calendar date and the time of day, the latter in microseconds
  since midnight (hour, minute, second and microsecond in one number).
\<close>

record datetime =
  year :: int
  month :: int
  day :: int
  time_of_day :: int

definition is_leap :: "int \<Rightarrow> bool" where
  "is_leap y = (y mod 4 = 0 \<and> (y mod 100 \<noteq> 0 \<or> y mod 400 = 0))"

definition days_in_month :: "int \<Rightarrow> int \<Rightarrow> int" where
  "days_in_month y m =
     (if m = 2 then (if is_leap y then 29 else 28)
      else if m = 4 \<or> m = 6 \<or> m = 9 \<or> m = 11 then 30 else 31)"

definition days_before_year :: "int \<Rightarrow> int" where
  "days_before_year y = (let z = y - 1 in z * 365 + z div 4 - z div 100 + z div 400)"

definition days_before_month :: "int \<Rightarrow> int \<Rightarrow> int" where
  "days_before_month y m = sum_list (map (days_in_month y) [1..m - 1])"

text \<open>
  The proleptic Gregorian ordinal of a date (\<open>date.toordinal\<close>): 1 is 0001-01-01. The
  model names a calendar date by its ordinal.
\<close>

definition ymd2ord :: "int \<Rightarrow> int \<Rightarrow> int \<Rightarrow> int" where
  "ymd2ord y m d = days_before_year y + days_before_month y m + d"

definition toordinal :: "datetime \<Rightarrow> int" where
  "toordinal t = ymd2ord (year t) (month t) (day t)"

text \<open>\<open>weekday()\<close>: Monday is 0 and Sunday is 6.\<close>

definition weekday_of_ordinal :: "int \<Rightarrow> int" where
  "weekday_of_ordinal n = (n + 6) mod 7"

definition weekday :: "datetime \<Rightarrow> int" where
  "weekday t = weekday_of_ordinal (toordinal t)"

text \<open>The constructor \<open>datetime(y, m, d)\<close> raises \<open>ValueError\<close> outside this range.\<close>

definition valid_date :: "int \<Rightarrow> int \<Rightarrow> int \<Rightarrow> bool" where
  "valid_date y m d =
     (1 \<le> y \<and> y \<le> 9999 \<and> 1 \<le> m \<and> m \<le> 12 \<and> 1 \<le> d \<and> d \<le> days_in_month y m)"

definition valid_datetime :: "datetime \<Rightarrow> bool" where
  "valid_datetime t =
     (valid_date (year t) (month t) (day t) \<and> 0 \<le> time_of_day t \<and> time_of_day t < 86400000000)"

text \<open>
  A raised exception: \<open>OverflowError\<close> from date arithmetic or a conversion out of
  range, \<open>ValueError\<close>, \<open>TypeError\<close> or \<open>AttributeError\<close> from a conversion or an attribute
  access, and \<open>Exception msg\<close> for any other exception, with its message. The callers
  modelled here catch \<open>Exception\<close>, which covers all of them.
\<close>

datatype py_error = OverflowError | ValueError | TypeError | AttributeError | Exception string

text \<open>
  \<open>today + timedelta(days=n, microseconds=us)\<close>, as the date of the result. The
  \<open>timedelta\<close> constructor raises \<open>OverflowError\<close> when its normalised number of days
  exceeds 999999999 in magnitude, the addition when the result leaves the years 1 to
  9999 (the ordinals 1 to 3652059).
\<close>

definition max_ordinal :: int where
  "max_ordinal = 3652059"

definition add_timedelta :: "datetime \<Rightarrow> int \<Rightarrow> int \<Rightarrow> py_error + int" where
  "add_timedelta today n us =
     (let td_days = n + us div 86400000000;
          td_us = us mod 86400000000
      in if 999999999 < \<bar>td_days\<bar> then Inl OverflowError
         else (let r = toordinal today + td_days + (time_of_day today + td_us) div 86400000000
               in if 1 \<le> r \<and> r \<le> max_ordinal then Inr r else Inl OverflowError))"

definition add_days :: "datetime \<Rightarrow> int \<Rightarrow> py_error + int" where
  "add_days today n = add_timedelta today n 0"

text \<open>
  The comparison \<open>datetime(y, m, d) < today\<close>: the left side is midnight of that date.
\<close>

definition midnight_before :: "int \<Rightarrow> int \<Rightarrow> int \<Rightarrow> datetime \<Rightarrow> bool" where
  "midnight_before y m d today =
     (y < year today
      \<or> (y = year today
          \<and> (m < month today
              \<or> (m = month today
                  \<and> (d < day today \<or> (d = day today \<and> 0 < time_of_day today))))))"

section \<open>Rule-based analyzer (simple_analyzer.py)\<close>

definition task_keywords :: "string list" where
  "task_keywords =
     [''todo'', ''task'', ''remind'', ''remember'', ''need to'', ''should'', ''must'',
      ''have to'', ''don't forget'', ''please'', ''could you'', ''can you'',
      ''will you'', ''deadline'', ''by'', ''due'', ''asap'', ''urgent'', ''important'',
      ''schedule'', ''meeting'', ''call'', ''email'', ''send'', ''review'', ''check'',
      ''prepare'', ''finish'', ''complete'', ''fix'', ''update'', ''create'']"

definition high_priority_words :: "string list" where
  "high_priority_words = [''urgent'', ''asap'', ''critical'', ''important'', ''immediately'']"

definition low_priority_words :: "string list" where
  "low_priority_words = [''whenever'', ''eventually'', ''if possible'', ''when you can'']"

definition strong_indicators :: "string list" where
  "strong_indicators = [''remind me'', ''don't forget'', ''need to'', ''have to'', ''please'']"

subsection \<open>Due dates\<close>

text \<open>
  The table \<open>patterns\<close> of \<open>_extract_due_date\<close>: the literal between the two \<open>\b\<close> of each
  pattern, and its number of days (\<open>None\<close> for the day names).
\<close>

definition patterns :: "(string \<times> int option) list" where
  "patterns =
     [(''today'', Some 0),
      (''tomorrow'', Some 1),
      (''next week'', Some 7),
      (''next month'', Some 30),
      (''monday'', None),
      (''tuesday'', None),
      (''wednesday'', None),
      (''thursday'', None),
      (''friday'', None),
      (''end of day'', Some 0),
      (''eod'', Some 0),
      (''end of week'', None),
      (''eow'', None)]"

text \<open>The text of a pattern, as the \<open>in\<close> tests of the day-name branch read it.\<close>

definition pattern_text :: "string \<Rightarrow> string" where
  "pattern_text lit = [CHR 0x5C, CHR ''b''] @ lit @ [CHR 0x5C, CHR ''b'']"

text \<open>
  The \<open>if\<close>/\<open>elif\<close> chain of the day-name branch: the weekday number the pattern stands
  for; \<open>None\<close> is the final \<open>else: continue\<close>.
\<close>

definition target_weekday :: "string \<Rightarrow> int option" where
  "target_weekday pattern =
     (if contains pattern ''monday'' then Some 0
      else if contains pattern ''tuesday'' then Some 1
      else if contains pattern ''wednesday'' then Some 2
      else if contains pattern ''thursday'' then Some 3
      else if contains pattern ''friday'' then Some 4
      else if contains pattern ''end of week'' \<or> contains pattern ''eow'' then Some 4
      else None)"

definition days_ahead :: "int \<Rightarrow> datetime \<Rightarrow> int" where
  "days_ahead target today =
     (let d = (target - weekday today) mod 7 in if d = 0 then 7 else d)"

text \<open>
  The \<open>for\<close> loop over the table. \<open>None\<close>: the loop ended without a \<open>return\<close>;
  \<open>Some r\<close>: it returned the date \<open>r\<close>, or the date arithmetic raised.
\<close>

fun due_date_loop :: "datetime \<Rightarrow> string \<Rightarrow> (string \<times> int option) list \<Rightarrow> (py_error + int) option" where
  "due_date_loop today message_lower [] = None"
| "due_date_loop today message_lower ((lit, days) # rest) =
     (if search_word lit message_lower
      then (case days of
              Some n \<Rightarrow> Some (add_days today n)
            | None \<Rightarrow>
                (case target_weekday (pattern_text lit) of
                   Some target \<Rightarrow> Some (add_days today (days_ahead target today))
                 | None \<Rightarrow> due_date_loop today message_lower rest))
      else due_date_loop today message_lower rest)"

text \<open>
  \<open>re.search(r'in (\d+) (hours?|days?|weeks?)', message_lower)\<close>. A match at a position
  takes every digit that follows \<open>in \<close> (a space must come next), and the unit is
  decided by the word that follows; the optional \<open>s\<close> is removed again by
  \<open>rstrip('s')\<close>. The search returns the leftmost match: the digits and the unit.
\<close>

datatype time_unit = Hour | Day | Week

definition in_pattern_at :: "string \<Rightarrow> (string \<times> time_unit) option" where
  "in_pattern_at s =
     (if startswith s ''in ''
      then (let r = drop 3 s; ds = takeWhile is_digit r; r2 = dropWhile is_digit r
            in if ds \<noteq> [] \<and> startswith r2 '' ''
               then (let u = drop 1 r2
                     in if startswith u ''hour'' then Some (ds, Hour)
                        else if startswith u ''day'' then Some (ds, Day)
                        else if startswith u ''week'' then Some (ds, Week)
                        else None)
               else None)
      else None)"

fun search_in_pattern :: "string \<Rightarrow> (string \<times> time_unit) option" where
  "search_in_pattern [] = None"
| "search_in_pattern (c # cs) =
     (case in_pattern_at (c # cs) of
        Some r \<Rightarrow> Some r
      | None \<Rightarrow> search_in_pattern cs)"

text \<open>
  The branch taken on a match: \<open>int\<close> of the digits (which raises \<open>ValueError\<close> beyond
  the interpreter's limit of 4300 digits), then the addition of the \<open>timedelta\<close>.
\<close>

definition in_pattern_date :: "datetime \<Rightarrow> string \<Rightarrow> time_unit \<Rightarrow> py_error + int" where
  "in_pattern_date today ds u =
     (if 4300 < length ds then Inl ValueError
      else (let amount = int_of_digits ds
            in case u of
                 Hour \<Rightarrow> add_timedelta today 0 (amount * 3600000000)
               | Day \<Rightarrow> add_timedelta today amount 0
               | Week \<Rightarrow> add_timedelta today (7 * amount) 0))"

text \<open>
  \<open>re.search(r'(\d{1,2})[/-](\d{1,2})', message)\<close>. At a position the first group takes
  two digits when a separator and a digit follow them, else one digit when a separator
  and a digit follow it; the second group takes two digits when it can. The search
  returns the two groups of the leftmost match.
\<close>

definition is_sep :: "char \<Rightarrow> bool" where
  "is_sep c = (c = CHR ''/'' \<or> c = CHR ''-'')"

definition second_group :: "string \<Rightarrow> string option" where
  "second_group s =
     (case s of
        [] \<Rightarrow> None
      | a # r \<Rightarrow>
          if is_digit a
          then (case r of
                  [] \<Rightarrow> Some [a]
                | b # r' \<Rightarrow> if is_digit b then Some [a, b] else Some [a])
          else None)"

definition date_pattern_at :: "string \<Rightarrow> (string \<times> string) option" where
  "date_pattern_at s =
     (case s of
        a # b # c # r \<Rightarrow>
          if is_digit a \<and> is_digit b \<and> is_sep c \<and> second_group r \<noteq> None
          then Some ([a, b], the (second_group r))
          else if is_digit a \<and> is_sep b \<and> second_group (c # r) \<noteq> None
          then Some ([a], the (second_group (c # r)))
          else None
      | _ \<Rightarrow> None)"

fun search_date_pattern :: "string \<Rightarrow> (string \<times> string) option" where
  "search_date_pattern [] = None"
| "search_date_pattern (c # cs) =
     (case date_pattern_at (c # cs) of
        Some r \<Rightarrow> Some r
      | None \<Rightarrow> search_date_pattern cs)"

text \<open>
  The \<open>try\<close> block of the explicit-date branch. A \<open>ValueError\<close> of either constructor
  call is caught, and the function goes on to its final \<open>return None\<close>.
\<close>

definition explicit_date :: "datetime \<Rightarrow> int \<Rightarrow> int \<Rightarrow> int option" where
  "explicit_date today m d =
     (let y = year today
      in if \<not> valid_date y m d then None
         else if midnight_before y m d today
         then (if valid_date (y + 1) m d then Some (ymd2ord (y + 1) m d) else None)
         else Some (ymd2ord y m d))"

text \<open>
  \<open>_extract_due_date\<close>, with the clock reading \<open>today = datetime.now()\<close> as an argument.
  The source renders the resulting date with \<open>strftime('%Y-%m-%d')\<close>; the model returns
  the date itself, as its ordinal.
\<close>

definition extract_due_date :: "datetime \<Rightarrow> string \<Rightarrow> py_error + int option" where
  "extract_due_date today message =
     (let message_lower = lower message
      in case due_date_loop today message_lower patterns of
           Some r \<Rightarrow> map_sum id Some r
         | None \<Rightarrow>
             (case search_in_pattern message_lower of
                Some (ds, u) \<Rightarrow> map_sum id Some (in_pattern_date today ds u)
              | None \<Rightarrow>
                  (case search_date_pattern message of
                     Some (g1, g2) \<Rightarrow> Inr (explicit_date today (int_of_digits g1) (int_of_digits g2))
                   | None \<Rightarrow> Inr None)))"

subsection \<open>Tags, task details and the analysis\<close>

definition tag_patterns :: "(string \<times> string list) list" where
  "tag_patterns =
     [(''meeting'', [''meeting'', ''call'', ''sync'', ''standup'', ''discussion'']),
      (''email'', [''email'', ''mail'', ''send'', ''reply'', ''respond'']),
      (''review'', [''review'', ''check'', ''approve'', ''feedback'']),
      (''development'', [''code'', ''implement'', ''fix'', ''bug'', ''feature'', ''deploy'']),
      (''documentation'', [''document'', ''docs'', ''write'', ''update docs'']),
      (''planning'', [''plan'', ''schedule'', ''organize'', ''prepare'']),
      (''research'', [''research'', ''investigate'', ''analyze'', ''find out''])]"

text \<open>
  \<open>_extract_tags\<close>. The source returns \<open>list(set(tags))[:5]\<close>; the order in which a set
  of strings is iterated is not fixed by the language, so it is the argument
  \<open>set_order\<close>, applied to the tags collected (which has no duplicates).
\<close>

definition extract_tags :: "(string list \<Rightarrow> string list) \<Rightarrow> string \<Rightarrow> string list" where
  "extract_tags set_order message =
     (let message_lower = lower message;
          tags = map fst (filter (\<lambda>(tag, keywords). contains_any message_lower keywords) tag_patterns);
          tags = (if contains_any message_lower [''urgent'', ''asap'', ''critical'']
                  then tags @ [''urgent''] else tags)
      in take 5 (set_order tags))"

record task_details =
  title :: string
  description :: string
  priority :: string
  due_date :: "int option"
  tags :: "string list"

definition make_title :: "string \<Rightarrow> string" where
  "make_title message =
     (let title = take 50 (split_dot_first message);
          title = (if length title = 50 then rsplit_space_first title @ ''...'' else title)
      in strip title)"

definition make_priority :: "string \<Rightarrow> string" where
  "make_priority message_lower =
     (if contains_any message_lower high_priority_words then ''high''
      else if contains_any message_lower low_priority_words then ''low''
      else ''medium'')"

text \<open>\<open>_extract_task_details\<close>; it raises when \<open>_extract_due_date\<close> does.\<close>

definition extract_task_details ::
  "(string list \<Rightarrow> string list) \<Rightarrow> datetime \<Rightarrow> string \<Rightarrow> py_error + task_details" where
  "extract_task_details set_order today message =
     (case extract_due_date today message of
        Inl e \<Rightarrow> Inl e
      | Inr due \<Rightarrow>
          Inr \<lparr>title = make_title message,
               description = message,
               priority = make_priority (lower message),
               due_date = due,
               tags = extract_tags set_order message\<rparr>)"

record analysis_metadata =
  model :: string
  keyword_matches :: "nat option"
  timestamp :: datetime

record analysis =
  is_task :: bool
  confidence :: real
  task_details :: "task_details option"
  metadata :: analysis_metadata

definition task_score :: "string \<Rightarrow> nat" where
  "task_score message_lower = length (filter (\<lambda>keyword. contains message_lower keyword) task_keywords)"

text \<open>The three assignments to \<open>is_task\<close>, in the order of the source.\<close>

definition decide_is_task :: "string \<Rightarrow> bool" where
  "decide_is_task message =
     (let message_lower = lower message;
          is_task = (2 \<le> task_score message_lower);
          is_task = (if contains_any message_lower strong_indicators then True else is_task);
          is_task = (if endswith (strip message) ''?''
                        \<and> \<not> contains_any message_lower [''could you'', ''can you'', ''will you'']
                     then False else is_task)
      in is_task)"

definition base_confidence :: "string \<Rightarrow> real" where
  "base_confidence message =
     min 0.9 (0.3 + real (task_score (lower message)) * 0.15)"

text \<open>
  \<open>SimpleMessageAnalyzer.analyze_message\<close>. The arguments \<open>today\<close> and \<open>stamp\<close> are the
  two readings of the clock (in \<open>_extract_due_date\<close> and for the timestamp of the
  metadata). The confidence is computed over the reals.
\<close>

definition analyze_message ::
  "(string list \<Rightarrow> string list) \<Rightarrow> datetime \<Rightarrow> datetime \<Rightarrow> string \<Rightarrow> py_error + analysis" where
  "analyze_message set_order today stamp message =
     (if decide_is_task message
      then (case extract_task_details set_order today message of
              Inl e \<Rightarrow> Inl e
            | Inr td \<Rightarrow>
                Inr \<lparr>is_task = True,
                     confidence = base_confidence message,
                     task_details = Some td,
                     metadata = \<lparr>model = ''simple-rules'',
                                 keyword_matches = Some (task_score (lower message)),
                                 timestamp = stamp\<rparr>\<rparr>)
      else Inr \<lparr>is_task = False,
                confidence = 1.0 - base_confidence message,
                task_details = None,
                metadata = \<lparr>model = ''simple-rules'', keyword_matches = None,
                            timestamp = stamp\<rparr>\<rparr>)"

section \<open>Model-backed analyzer (llama_analyzer.py)\<close>

text \<open>
  A Python \<open>float\<close>: a finite value, an infinity or NaN. Finite values are carried as
  reals; the code modelled here only compares and selects floats.
\<close>

datatype pyfloat = Finite real | PosInf | NegInf | NaN

text \<open>The comparison \<open>a < b\<close> of two floats; it is false when either is NaN.\<close>

fun float_less :: "pyfloat \<Rightarrow> pyfloat \<Rightarrow> bool" where
  "float_less (Finite a) (Finite b) = (a < b)"
| "float_less (Finite a) PosInf = True"
| "float_less NegInf (Finite b) = True"
| "float_less NegInf PosInf = True"
| "float_less a b = False"

text \<open>
  The builtins \<open>min(a, b)\<close> and \<open>max(a, b)\<close>: the first argument is kept unless the second
  is smaller (greater).
\<close>

definition py_min :: "pyfloat \<Rightarrow> pyfloat \<Rightarrow> pyfloat" where
  "py_min a b = (if float_less b a then b else a)"

definition py_max :: "pyfloat \<Rightarrow> pyfloat \<Rightarrow> pyfloat" where
  "py_max a b = (if float_less a b then b else a)"

text \<open>
  The values \<open>json.loads\<close> produces; \<open>None\<close> is \<open>JNull\<close>. A dictionary is an association
  list, read with \<open>map_of\<close>.
\<close>

datatype json =
    JNull
  | JBool bool
  | JInt int
  | JFloat pyfloat
  | JStr string
  | JList "json list"
  | JObj "(string \<times> json) list"

text \<open>\<open>d.get(key, default)\<close>.\<close>

definition dict_get :: "(string \<times> json) list \<Rightarrow> string \<Rightarrow> json \<Rightarrow> json" where
  "dict_get d key dflt = (case map_of d key of Some v \<Rightarrow> v | None \<Rightarrow> dflt)"

text \<open>The truth value of an object in a condition.\<close>

fun truthy :: "json \<Rightarrow> bool" where
  "truthy JNull = False"
| "truthy (JBool b) = b"
| "truthy (JInt n) = (n \<noteq> 0)"
| "truthy (JFloat f) = (f \<noteq> Finite 0)"
| "truthy (JStr s) = (s \<noteq> [])"
| "truthy (JList xs) = (xs \<noteq> [])"
| "truthy (JObj kvs) = (kvs \<noteq> [])"

text \<open>
  The builtin \<open>float(x)\<close>. An integer converts unless it rounds beyond the largest
  double (\<open>OverflowError\<close>); the model keeps its exact value, which the clamping that
  follows treats as it treats the rounded one. A string is parsed by the argument
  \<open>float_of_str\<close> (\<open>None\<close>: \<open>ValueError\<close>). \<open>None\<close>, lists and dictionaries raise
  \<open>TypeError\<close>.
\<close>

definition py_float :: "(string \<Rightarrow> pyfloat option) \<Rightarrow> json \<Rightarrow> py_error + pyfloat" where
  "py_float float_of_str x =
     (case x of
        JNull \<Rightarrow> Inl TypeError
      | JBool b \<Rightarrow> Inr (Finite (if b then 1 else 0))
      | JInt n \<Rightarrow> (if 2 ^ 1024 - 2 ^ 970 \<le> \<bar>n\<bar> then Inl OverflowError else Inr (Finite (of_int n)))
      | JFloat f \<Rightarrow> Inr f
      | JStr s \<Rightarrow> (case float_of_str s of None \<Rightarrow> Inl ValueError | Some f \<Rightarrow> Inr f)
      | JList xs \<Rightarrow> Inl TypeError
      | JObj kvs \<Rightarrow> Inl TypeError)"

text \<open>
  The builtin \<open>str(x)\<close>: a string is itself; the rendering of any other value is the
  argument \<open>repr\<close>.
\<close>

definition py_str :: "(json \<Rightarrow> string) \<Rightarrow> json \<Rightarrow> string" where
  "py_str repr x = (case x of JStr s \<Rightarrow> s | _ \<Rightarrow> repr x)"

record llama_details =
  l_title :: string
  l_description :: string
  l_priority :: json
  l_due_date :: json
  l_tags :: json

record llama_metadata =
  lm_model :: string
  lm_model_name :: "string option"
  lm_timestamp :: "datetime option"
  lm_error :: "py_error option"

record validated =
  v_is_task :: json
  v_confidence :: pyfloat
  v_task_details :: "llama_details option"
  v_metadata :: llama_metadata

text \<open>
  \<open>_validate_result\<close>. It raises when \<open>float\<close> does, and (\<open>AttributeError\<close>) when the
  task details are a true value that is not a dictionary and so has no \<open>get\<close>.
\<close>

definition validate_result ::
  "(json \<Rightarrow> string) \<Rightarrow> (string \<Rightarrow> pyfloat option) \<Rightarrow> datetime \<Rightarrow> (string \<times> json) list
     \<Rightarrow> py_error + validated" where
  "validate_result repr float_of_str stamp result =
     (case py_float float_of_str (dict_get result ''confidence'' (JFloat (Finite 0))) of
        Inl e \<Rightarrow> Inl e
      | Inr c \<Rightarrow>
          (let validated =
                 \<lparr>v_is_task = dict_get result ''is_task'' (JBool False),
                  v_confidence = c,
                  v_task_details = None,
                  v_metadata = \<lparr>lm_model = ''llama-local'', lm_model_name = Some ''Phi-3-mini-4k'',
                                lm_timestamp = Some stamp, lm_error = None\<rparr>\<rparr>;
               validated = validated\<lparr>v_confidence :=
                                       py_max (Finite 0) (py_min (Finite 1) (v_confidence validated))\<rparr>
           in if truthy (v_is_task validated) \<and> truthy (dict_get result ''task_details'' JNull)
              then (case dict_get result ''task_details'' JNull of
                      JObj details \<Rightarrow>
                        (let td = \<lparr>l_title = py_str repr (dict_get details ''title'' (JStr ''Untitled Task'')),
                                   l_description = py_str repr (dict_get details ''description'' (JStr '''')),
                                   l_priority = dict_get details ''priority'' (JStr ''medium''),
                                   l_due_date = dict_get details ''due_date'' JNull,
                                   l_tags = dict_get details ''tags'' (JList [])\<rparr>;
                             td = (if l_priority td \<notin> set [JStr ''low'', JStr ''medium'', JStr ''high'']
                                   then td\<lparr>l_priority := JStr ''medium''\<rparr> else td)
                         in Inr (validated\<lparr>v_task_details := Some td\<rparr>))
                    | _ \<Rightarrow> Inl AttributeError)
              else Inr validated))"

text \<open>The safe default of the outer \<open>except Exception\<close>.\<close>

definition safe_default :: "py_error \<Rightarrow> validated" where
  "safe_default e =
     \<lparr>v_is_task = JBool False, v_confidence = Finite 0, v_task_details = None,
      v_metadata = \<lparr>lm_model = ''llama-local'', lm_model_name = None, lm_timestamp = None,
                    lm_error = Some e\<rparr>\<rparr>"

text \<open>
  \<open>LlamaMessageAnalyzer.analyze_message\<close>. The argument \<open>parsed\<close> stands for the first
  part of the \<open>try\<close> block: the call of the model and the parsing of its text, by
  \<open>json.loads\<close> or by \<open>_parse_natural_response\<close>, into the dictionary \<open>result\<close>, or an
  exception raised on the way.
\<close>

definition llama_analyze_message ::
  "(json \<Rightarrow> string) \<Rightarrow> (string \<Rightarrow> pyfloat option) \<Rightarrow> datetime
     \<Rightarrow> py_error + (string \<times> json) list \<Rightarrow> validated" where
  "llama_analyze_message repr float_of_str stamp parsed =
     (case parsed of
        Inl e \<Rightarrow> safe_default e
      | Inr result \<Rightarrow>
          (case validate_result repr float_of_str stamp result of
             Inl e \<Rightarrow> safe_default e
           | Inr v \<Rightarrow> v))"

section \<open>Strategy-selecting analyzer (message_analyzer.py)\<close>

text \<open>
  The strategy fixed by \<open>MessageAnalyzer.__init__\<close> (the attributes \<open>use_openai\<close> and
  \<open>use_llama\<close>). \<open>llama_loads\<close> tells whether the constructor of the Llama analyzer
  returns rather than raises.
\<close>

datatype strategy = OpenAI | Llama | Simple

definition analyzer_init :: "config \<Rightarrow> bool \<Rightarrow> strategy" where
  "analyzer_init cfg llama_loads =
     (if openai_api_key cfg \<noteq> [] \<and> openai_api_key cfg \<noteq> ''your-openai-api-key'' then OpenAI
      else if use_simple_analyzer cfg then Simple
      else if llama_loads then Llama
      else Simple)"

text \<open>What the analyzers read from outside: replies, library renderings and the clock.\<close>

record env =
  openai_reply :: "py_error + json"
  llama_parsed :: "py_error + (string \<times> json) list"
  env_repr :: "json \<Rightarrow> string"
  env_float_of_str :: "string \<Rightarrow> pyfloat option"
  env_set_order :: "string list \<Rightarrow> string list"
  env_today :: datetime
  env_stamp :: datetime

record task_entry =
  t_title :: string
  t_description :: string
  t_priority :: json
  assignee :: string
  estimated_time :: string

text \<open>
  The dictionaries \<open>_ai_analyze\<close> returns: the parsed reply of OpenAI as it is
  (\<open>Raw\<close>); \<open>{"contains_task": False, "error": str(e)}\<close> (\<open>Failed\<close>); the dictionary with
  \<open>contains_task\<close> true, \<open>tasks\<close>, \<open>confidence\<close> and \<open>context\<close> (\<open>ContainsTask\<close>); and
  \<open>{"contains_task": False, "confidence": c}\<close> (\<open>NoTask\<close>).
\<close>

datatype analysis_dict =
    Raw json
  | Failed py_error
  | ContainsTask "task_entry list" pyfloat string
  | NoTask pyfloat

text \<open>The value under the key \<open>confidence\<close> of such a dictionary, when it has one.\<close>

fun confidence_entry :: "analysis_dict \<Rightarrow> json option" where
  "confidence_entry (Raw (JObj kvs)) = map_of kvs ''confidence''"
| "confidence_entry (Raw j) = None"
| "confidence_entry (Failed e) = None"
| "confidence_entry (ContainsTask ts c ctx) = Some (JFloat c)"
| "confidence_entry (NoTask c) = Some (JFloat c)"

definition ai_analyze :: "strategy \<Rightarrow> env \<Rightarrow> string \<Rightarrow> string \<Rightarrow> string \<Rightarrow> analysis_dict" where
  "ai_analyze strat e message sender channel =
     (case strat of
        OpenAI \<Rightarrow>
          (case openai_reply e of
             Inr result \<Rightarrow> Raw result
           | Inl err \<Rightarrow> Failed err)
      | Llama \<Rightarrow>
          (let result = llama_analyze_message (env_repr e) (env_float_of_str e) (env_stamp e) (llama_parsed e)
           in case (if truthy (v_is_task result) then v_task_details result else None) of
                Some td \<Rightarrow>
                  ContainsTask
                    [\<lparr>t_title = l_title td, t_description = l_description td,
                      t_priority = l_priority td, assignee = sender,
                      estimated_time = ''Not specified''\<rparr>]
                    (v_confidence result) (''Detected in '' @ channel)
              | None \<Rightarrow> NoTask (v_confidence result))
      | Simple \<Rightarrow>
          (case analyze_message (env_set_order e) (env_today e) (env_stamp e) message of
             Inl err \<Rightarrow> Failed err
           | Inr result \<Rightarrow>
               (case (if is_task result then task_details result else None) of
                  Some td \<Rightarrow>
                    ContainsTask
                      [\<lparr>t_title = title td, t_description = description td,
                        t_priority = JStr (priority td), assignee = sender,
                        estimated_time = ''Not specified''\<rparr>]
                      (Finite (confidence result)) (''Detected in '' @ channel)
                | None \<Rightarrow> NoTask (Finite (confidence result)))))"

section \<open>Notions used to state the properties\<close>

text \<open>
  The first entry of the table \<open>patterns\<close>, in the order of the table, whose pattern is
  found in the lower-cased message: the phrase that \<open>_extract_due_date\<close> matches first.
\<close>

definition first_match :: "string \<Rightarrow> (string \<times> int option) option" where
  "first_match message_lower = find (\<lambda>(lit, days). search_word lit message_lower) patterns"

text \<open>The day names of the table with their weekday numbers (Monday is 0).\<close>

definition weekday_names :: "(string \<times> int) list" where
  "weekday_names =
     [(''monday'', 0), (''tuesday'', 1), (''wednesday'', 2), (''thursday'', 3), (''friday'', 4)]"

text \<open>A float that is a number of the interval from 0 to 1.\<close>

fun in_unit_interval :: "pyfloat \<Rightarrow> bool" where
  "in_unit_interval (Finite x) = (0 \<le> x \<and> x \<le> 1)"
| "in_unit_interval f = False"

text \<open>
  Cutting \<open>message\<close> before position \<open>n\<close> splits a word: the characters on both sides of
  the cut exist and neither is a space.
\<close>

definition splits_word :: "string \<Rightarrow> nat \<Rightarrow> bool" where
  "splits_word message n =
     (0 < n \<and> n < length message \<and> message ! (n - 1) \<noteq> CHR '' '' \<and> message ! n \<noteq> CHR '' '')"

section \<open>Properties of the rule-based analyzer\<close>

lemma startswith_append: "xs \<noteq> [] \<Longrightarrow> startswith (xs @ ys) [q] = startswith xs [q]"
  by (cases xs) simp_all

lemma endswith_strip_rstrip:
  assumes "\<not> is_space q"
  shows "endswith (strip m) [q] = endswith (rstrip m) [q]"
proof (cases "dropWhile is_space m = []")
  case True
  then have all: "\<forall>x\<in>set m. is_space x" by (simp add: dropWhile_eq_Nil_conv)
  have r: "rstrip m = []"
    unfolding rstrip_def using all by (simp add: dropWhile_eq_Nil_conv)
  have "lstrip m = []" unfolding lstrip_def by (rule True)
  then have s: "strip m = []" by (simp add: strip_def rstrip_def)
  show ?thesis by (simp only: r s)
next
  case False
  define a where "a = takeWhile is_space m"
  define b where "b = dropWhile is_space m"
  have m: "m = a @ b" by (simp add: a_def b_def)
  have bne: "b \<noteq> []" using False by (simp add: b_def)
  have hb: "\<not> is_space (hd b)" using False unfolding b_def by (simp add: hd_dropWhile)
  have "hd b \<in> set (rev b)" using bne by simp
  then have ex: "\<exists>x\<in>set (rev b). \<not> is_space x" using hb by blast
  then have dne: "dropWhile is_space (rev b) \<noteq> []" by (simp add: dropWhile_eq_Nil_conv)
  have hin: "hd b \<in> set (rev b)" using bne by simp
  have "dropWhile is_space (rev b @ rev a) = dropWhile is_space (rev b) @ rev a"
    by (rule dropWhile_append1[where P = is_space and x = "hd b", OF hin hb])
  then have "dropWhile is_space (rev m) = dropWhile is_space (rev b) @ rev a"
    by (simp add: m)
  then show ?thesis
    using dne by (simp add: endswith_def strip_def rstrip_def lstrip_def b_def[symmetric] startswith_append)
qed

lemma not_space_q: "\<not> is_space (CHR ''?'')" by (simp add: is_space_def)

lemma decide_question:
  assumes "endswith (rstrip message) ''?''"
    and "\<not> contains (lower message) ''could you''"
    and "\<not> contains (lower message) ''can you''"
    and "\<not> contains (lower message) ''will you''"
  shows "\<not> decide_is_task message"
proof -
  have "endswith (strip message) ''?''"
    using assms(1) endswith_strip_rstrip[OF not_space_q, of message] by simp
  then show ?thesis using assms(2-4) by (simp add: decide_is_task_def contains_any_def Let_def)
qed

text \<open>
  Claim C5. A text that ends with a question mark once its trailing whitespace is
  stripped, and whose lower-cased form contains none of "could you", "can you" and
  "will you", is analysed as not a task, whatever its keyword score and whatever strong
  indicator it holds: the analysis returns, with \<open>is_task\<close> false and no task details.
\<close>

theorem question_is_not_task:
  assumes "endswith (rstrip message) ''?''"
    and "\<not> contains (lower message) ''could you''"
    and "\<not> contains (lower message) ''can you''"
    and "\<not> contains (lower message) ''will you''"
  shows "\<exists>r. analyze_message order now st message = Inr r \<and> is_task r = False
             \<and> task_details r = None"
  using decide_question[OF assms] by (simp add: analyze_message_def)

theorem question_is_not_task_witness:
  "(\<exists>r. analyze_message (\<lambda>tags. tags)
           \<lparr>year = 2026, month = 11, day = 2, time_of_day = 36000000000\<rparr>
           \<lparr>year = 2026, month = 11, day = 2, time_of_day = 36000000001\<rparr>
           ''Please remind me: is the urgent deadline tomorrow?  '' = Inr r
        \<and> is_task r = False \<and> task_details r = None)
   \<and> contains_any (lower ''Please remind me: is the urgent deadline tomorrow?  '') strong_indicators
   \<and> task_score (lower ''Please remind me: is the urgent deadline tomorrow?  '') = 4"
proof -
  let ?m = "''Please remind me: is the urgent deadline tomorrow?  ''"
  have h1: "endswith (rstrip ?m) ''?''" by code_simp
  have h2: "\<not> contains (lower ?m) ''could you''" by code_simp
  have h3: "\<not> contains (lower ?m) ''can you''" by code_simp
  have h4: "\<not> contains (lower ?m) ''will you''" by code_simp
  have s: "contains_any (lower ?m) strong_indicators" by code_simp
  have k: "task_score (lower ?m) = 4" by code_simp
  show ?thesis
    using question_is_not_task[OF h1 h2 h3 h4] s k by blast
qed

lemma base_confidence_bounds: "0.3 \<le> base_confidence m \<and> base_confidence m \<le> 0.9"
proof -
  have "(0::real) \<le> real (task_score (lower m)) * 0.15" by simp
  then have "(0.3::real) \<le> 0.3 + real (task_score (lower m)) * 0.15" by linarith
  then show ?thesis unfolding base_confidence_def by (simp only: min_def split: if_splits) auto
qed

lemma simple_confidence:
  "analyze_message order now st m = Inr r \<Longrightarrow> 0 \<le> confidence r \<and> confidence r \<le> 1"
  using base_confidence_bounds[of m]
  by (auto simp: analyze_message_def split: if_splits sum.splits)

lemma simple_iff:
  "analyze_message order now st m = Inr r \<Longrightarrow> (is_task r \<longleftrightarrow> task_details r \<noteq> None)"
  by (auto simp: analyze_message_def split: if_splits sum.splits)

lemma make_priority_range: "make_priority s \<in> {''low'', ''medium'', ''high''}"
  by (simp add: make_priority_def)

lemma simple_priority:
  "analyze_message order now st m = Inr r \<Longrightarrow> task_details r = Some td \<Longrightarrow>
     priority td \<in> {''low'', ''medium'', ''high''}"
  using make_priority_range[of "lower m"]
  by (auto simp: analyze_message_def extract_task_details_def split: if_splits sum.splits)

subsection \<open>The title\<close>

lemma dropWhile_append_keep:
  "ys \<noteq> [] \<Longrightarrow> \<not> P (hd ys) \<Longrightarrow> dropWhile P (xs @ ys) = dropWhile P xs @ ys"
  by (induction xs) (auto simp: neq_Nil_conv)

lemma lstrip_ellipsis: "lstrip (x @ ''...'') = lstrip x @ ''...''"
  unfolding lstrip_def by (rule dropWhile_append_keep) (simp_all add: is_space_def)

lemma rstrip_ellipsis: "rstrip (x @ ''...'') = x @ ''...''"
  by (simp add: rstrip_def is_space_def)

lemma strip_ellipsis: "strip (x @ ''...'') = lstrip x @ ''...''"
  by (simp add: strip_def lstrip_ellipsis rstrip_ellipsis)

lemma rsplit_space_first_last:
  assumes "CHR '' '' \<notin> set b"
  shows "rsplit_space_first (a @ CHR '' '' # b) = a"
proof -
  have "dropWhile (\<lambda>c. c \<noteq> CHR '' '') (rev b @ CHR '' '' # rev a)
          = dropWhile (\<lambda>c. c \<noteq> CHR '' '') (CHR '' '' # rev a)"
    by (rule dropWhile_append2) (use assms in auto)
  then have "dropWhile (\<lambda>c. c \<noteq> CHR '' '') (rev b @ CHR '' '' # rev a) = CHR '' '' # rev a"
    by simp
  then show ?thesis by (simp add: rsplit_space_first_def)
qed

lemma take_takeWhile:
  assumes "n \<le> length xs" and "\<forall>x\<in>set (take n xs). P x"
  shows "take n (takeWhile P xs) = take n xs"
proof -
  have "takeWhile P (take n xs @ drop n xs) = take n xs @ takeWhile P (drop n xs)"
    by (rule takeWhile_append2) (use assms(2) in auto)
  then have "takeWhile P xs = take n xs @ takeWhile P (drop n xs)"
    by (simp only: append_take_drop_id)
  then have "take n (takeWhile P xs) = take n (take n xs @ takeWhile P (drop n xs))" by simp
  also have "\<dots> = take n xs" using assms(1) by simp
  finally show ?thesis .
qed

lemma make_title_long:
  assumes "50 \<le> length message" and "CHR ''.'' \<notin> set (take 50 message)"
  shows "make_title message = lstrip (rsplit_space_first (take 50 message)) @ ''...''"
proof -
  have "take 50 (split_dot_first message) = take 50 message"
    unfolding split_dot_first_def using assms by (intro take_takeWhile) auto
  then show ?thesis using assms(1) by (simp add: make_title_def Let_def strip_ellipsis)
qed

lemma length_lstrip: "length (lstrip x) \<le> length x"
  by (simp add: lstrip_def length_dropWhile_le)

lemma last_space_split:
  assumes "CHR '' '' \<in> set (take 50 message)" and "50 \<le> length message"
  shows "\<exists>p q. take 50 message = p @ CHR '' '' # q \<and> CHR '' '' \<notin> set q \<and> length p < 50
             \<and> message ! length p = CHR '' '' \<and> take (length p) message = p"
proof -
  from split_list_last[OF assms(1)]
  obtain p q where pq: "take 50 message = p @ CHR '' '' # q" "CHR '' '' \<notin> set q" by blast
  have "length (take 50 message) = 50" using assms(2) by simp
  then have "length (p @ CHR '' '' # q) = 50" by (simp only: pq(1))
  then have k: "length p < 50" by simp
  have "(p @ CHR '' '' # q) ! length p = CHR '' ''" by simp
  then have "take 50 message ! length p = CHR '' ''" by (simp only: pq(1))
  then have c: "message ! length p = CHR '' ''" using k by simp
  have "take (length p) (p @ CHR '' '' # q) = p" by simp
  then have "take (length p) (take 50 message) = p" by (simp only: pq(1))
  then have tp: "take (length p) message = p" using k by (simp add: min_def)
  show ?thesis using pq k c tp by blast
qed


lemma rsplit_length_le: "length (rsplit_space_first s) \<le> length s"
proof (cases "CHR '' '' \<in> set s")
  case True
  from split_list_last[OF True]
  obtain p q where pq: "s = p @ CHR '' '' # q" "CHR '' '' \<notin> set q" by blast
  have "rsplit_space_first (p @ CHR '' '' # q) = p" by (rule rsplit_space_first_last[OF pq(2)])
  then have "length (rsplit_space_first (p @ CHR '' '' # q)) \<le> length (p @ CHR '' '' # q)" by simp
  then show ?thesis by (simp only: pq(1)[symmetric])
next
  case False
  then show ?thesis by (simp add: rsplit_space_first_def)
qed

text \<open>
  Claim C9, as the code has it. For a message of at least 120 characters with no full
  stop among its first 50, the title has at most 53 characters. When the 50-character
  prefix holds a space, the title is the part of the message before the last space of
  the prefix, stripped on the left, followed by the ellipsis: the cut is at a space and
  splits no word. When the prefix holds no space, nothing is trimmed: the title is the
  whole prefix followed by the ellipsis.
\<close>

theorem title_truncation:
  assumes "120 \<le> length message" and "CHR ''.'' \<notin> set (take 50 message)"
  shows "length (make_title message) \<le> 53
       \<and> (CHR '' '' \<in> set (take 50 message) \<longrightarrow>
            (\<exists>k<50. message ! k = CHR '' ''
               \<and> CHR '' '' \<notin> set (drop (Suc k) (take 50 message))
               \<and> \<not> splits_word message k
               \<and> make_title message = lstrip (take k message) @ ''...''))
       \<and> (CHR '' '' \<notin> set (take 50 message) \<longrightarrow>
            make_title message = lstrip (take 50 message) @ ''...'')"
proof -
  have len: "50 \<le> length message" using assms(1) by simp
  note t = make_title_long[OF len assms(2)]
  have l50: "length (take 50 message) = 50" using len by simp
  have a: "CHR '' '' \<notin> set (take 50 message) \<longrightarrow>
            make_title message = lstrip (take 50 message) @ ''...''"
  proof
    assume n: "CHR '' '' \<notin> set (take 50 message)"
    have "rsplit_space_first (take 50 message) = take 50 message"
      using n by (simp only: rsplit_space_first_def if_False)
    then show "make_title message = lstrip (take 50 message) @ ''...''" by (simp only: t)
  qed
  have b: "CHR '' '' \<in> set (take 50 message) \<longrightarrow>
            (\<exists>k<50. message ! k = CHR '' ''
               \<and> CHR '' '' \<notin> set (drop (Suc k) (take 50 message))
               \<and> \<not> splits_word message k
               \<and> make_title message = lstrip (take k message) @ ''...'')"
  proof
    assume "CHR '' '' \<in> set (take 50 message)"
    from last_space_split[OF this len]
    obtain p q where pq: "take 50 message = p @ CHR '' '' # q" "CHR '' '' \<notin> set q"
      and k: "length p < 50" and c: "message ! length p = CHR '' ''"
      and tp: "take (length p) message = p" by blast
    have "drop (Suc (length p)) (p @ CHR '' '' # q) = q" by simp
    then have d: "drop (Suc (length p)) (take 50 message) = q" by (simp only: pq(1))
    have "rsplit_space_first (p @ CHR '' '' # q) = p" by (rule rsplit_space_first_last[OF pq(2)])
    then have "rsplit_space_first (take 50 message) = take (length p) message"
      by (simp only: pq(1) tp)
    then have e: "make_title message = lstrip (take (length p) message) @ ''...''"
      by (simp only: t)
    have f: "\<not> splits_word message (length p)" by (simp add: splits_word_def c)
    have d': "CHR '' '' \<notin> set (drop (Suc (length p)) (take 50 message))"
      unfolding d by (rule pq(2))
    show "\<exists>k<50. message ! k = CHR '' ''
               \<and> CHR '' '' \<notin> set (drop (Suc k) (take 50 message))
               \<and> \<not> splits_word message k
               \<and> make_title message = lstrip (take k message) @ ''...''"
      using k c d' e f by blast
  qed
  have "length (rsplit_space_first (take 50 message)) \<le> 50"
    using rsplit_length_le[of "take 50 message"] l50 by linarith
  then have "length (lstrip (rsplit_space_first (take 50 message))) \<le> 50"
    using length_lstrip[of "rsplit_space_first (take 50 message)"] by linarith
  then have c: "length (make_title message) \<le> 53" by (simp add: t)
  show ?thesis using a b c by blast
qed

theorem title_truncation_witness:
  "(let m = ''Please review the quarterly budget report and forward your feedback to the finance team before the board meeting on Friday afternoon''
    in 120 \<le> length m \<and> CHR ''.'' \<notin> set (take 50 m) \<and> CHR '' '' \<in> set (take 50 m)
       \<and> length (make_title m) \<le> 53
       \<and> (\<exists>k<50. m ! k = CHR '' '' \<and> CHR '' '' \<notin> set (drop (Suc k) (take 50 m))
               \<and> \<not> splits_word m k
               \<and> make_title m = lstrip (take k m) @ ''...'')
       \<and> make_title m = ''Please review the quarterly budget report and...'')"
proof -
  let ?m = "''Please review the quarterly budget report and forward your feedback to the finance team before the board meeting on Friday afternoon''"
  have h1: "120 \<le> length ?m" by code_simp
  have h2: "CHR ''.'' \<notin> set (take 50 ?m)" by code_simp
  have h3: "CHR '' '' \<in> set (take 50 ?m)" by code_simp
  have h4: "make_title ?m = ''Please review the quarterly budget report and...''" by code_simp
  show ?thesis unfolding Let_def using title_truncation[OF h1 h2] h1 h2 h3 h4 by blast
qed

text \<open>
  Claim C9 as stated fails on a message whose first 50 characters hold no space: for
  120 letters \<open>a\<close> the title is 50 letters and the ellipsis, cut inside the word.
\<close>

theorem title_splits_word_counterexample:
  "(let m = replicate 120 (CHR ''a'')
    in 120 \<le> length m \<and> CHR ''.'' \<notin> set (take 50 m)
       \<and> make_title m = replicate 50 (CHR ''a'') @ ''...''
       \<and> length (make_title m) = 53
       \<and> splits_word m 50)"
  by code_simp

section \<open>Properties of the due-date extraction\<close>

lemma target_weekday_table:
  "target_weekday (pattern_text ''monday'') = Some 0"
  "target_weekday (pattern_text ''tuesday'') = Some 1"
  "target_weekday (pattern_text ''wednesday'') = Some 2"
  "target_weekday (pattern_text ''thursday'') = Some 3"
  "target_weekday (pattern_text ''friday'') = Some 4"
  "target_weekday (pattern_text ''end of week'') = Some 4"
  "target_weekday (pattern_text ''eow'') = Some 4"
  by code_simp+

lemma due_date_loop_find:
  assumes "\<And>lit. (lit, None) \<in> set ps \<Longrightarrow> target_weekday (pattern_text lit) \<noteq> None"
  shows "due_date_loop now s ps =
           (case find (\<lambda>(lit, days). search_word lit s) ps of
              None \<Rightarrow> None
            | Some (lit, Some n) \<Rightarrow> Some (add_days now n)
            | Some (lit, None) \<Rightarrow>
                Some (add_days now (days_ahead (the (target_weekday (pattern_text lit))) now)))"
  using assms
proof (induction ps)
  case Nil
  show ?case by simp
next
  case (Cons p ps)
  obtain lit days where p: "p = (lit, days)" by (cases p)
  have ih: "due_date_loop now s ps =
           (case find (\<lambda>(lit, days). search_word lit s) ps of
              None \<Rightarrow> None
            | Some (lit, Some n) \<Rightarrow> Some (add_days now n)
            | Some (lit, None) \<Rightarrow>
                Some (add_days now (days_ahead (the (target_weekday (pattern_text lit))) now)))"
    using Cons.IH Cons.prems by simp
  show ?case
  proof (cases days)
    case None
    then have "target_weekday (pattern_text lit) \<noteq> None" using Cons.prems[of lit] p by simp
    then obtain w where "target_weekday (pattern_text lit) = Some w" by blast
    then show ?thesis using p None ih by simp
  next
    case (Some n)
    then show ?thesis using p ih by simp
  qed
qed

lemma patterns_targets:
  "(lit, None) \<in> set patterns \<Longrightarrow> target_weekday (pattern_text lit) \<noteq> None"
  using target_weekday_table by (auto simp: patterns_def)

lemma due_date_loop_first_match:
  "due_date_loop now s patterns =
     (case first_match s of
        None \<Rightarrow> None
      | Some (lit, Some n) \<Rightarrow> Some (add_days now n)
      | Some (lit, None) \<Rightarrow>
          Some (add_days now (days_ahead (the (target_weekday (pattern_text lit))) now)))"
  unfolding first_match_def by (rule due_date_loop_find) (rule patterns_targets)

lemma first_match_in_patterns: "first_match s = Some p \<Longrightarrow> p \<in> set patterns"
  unfolding first_match_def by (auto simp: find_Some_iff intro: nth_mem)


lemma days_before_year_nonneg: "1 \<le> y \<Longrightarrow> 0 \<le> days_before_year y"
proof -
  assume y: "1 \<le> y"
  define z where "z = y - 1"
  have z: "0 \<le> z" using y by (simp add: z_def)
  have a: "z div 100 \<le> z" using z by presburger
  have b: "0 \<le> z div 4" using z by simp
  have c: "0 \<le> z div 400" using z by simp
  have "0 \<le> z * 365 + z div 4 - z div 100 + z div 400" using a b c z by linarith
  then show ?thesis by (simp add: days_before_year_def Let_def z_def)
qed

lemma days_in_month_pos: "0 \<le> days_in_month y m"
  by (simp add: days_in_month_def)

lemma days_before_month_nonneg: "0 \<le> days_before_month y m"
  unfolding days_before_month_def by (rule sum_list_nonneg) (auto simp: days_in_month_pos)

lemma toordinal_pos: "valid_datetime now \<Longrightarrow> 1 \<le> toordinal now"
  using days_before_year_nonneg[of "year now"] days_before_month_nonneg[of "year now" "month now"]
  by (simp add: valid_datetime_def valid_date_def toordinal_def ymd2ord_def)

lemma ahead_cases:
  fixes a w :: int
  assumes "0 \<le> w" "w \<le> 6" "0 \<le> a" "a \<le> 6"
  shows "(w - a) mod 7 = (if a \<le> w then w - a else w - a + 7)"
proof (cases "a \<le> w")
  case True
  then have "0 \<le> w - a" "w - a < 7" using assms by auto
  then show ?thesis using True by simp
next
  case False
  then have r: "0 \<le> w - a + 7" "w - a + 7 < 7" using assms by auto
  have "(w - a) mod 7 = (w - a + 7) mod 7" by simp
  also have "\<dots> = w - a + 7" using r by (rule mod_pos_pos_trivial)
  finally show ?thesis using False by simp
qed


lemma days_ahead_eq:
  assumes "0 \<le> w" "w \<le> 6"
  shows "days_ahead w now =
           (if weekday now < w then w - weekday now else w - weekday now + 7)"
proof -
  have a: "0 \<le> weekday now" "weekday now \<le> 6"
    by (simp_all add: weekday_def weekday_of_ordinal_def)
  show ?thesis
    unfolding days_ahead_def Let_def ahead_cases[OF assms a] using a assms by auto
qed

lemma weekday_shift:
  "weekday_of_ordinal (toordinal now + j) = (weekday now + j) mod 7"
proof -
  have "(toordinal now + j + 6) mod 7 = ((toordinal now + 6) + j) mod 7"
    by (simp add: algebra_simps)
  also have "\<dots> = ((toordinal now + 6) mod 7 + j) mod 7"
    by (simp only: mod_add_left_eq)
  finally show ?thesis by (simp add: weekday_def weekday_of_ordinal_def)
qed

lemma mod7_in_range:
  fixes x w :: int
  assumes "0 \<le> w" "w \<le> 6" "w - 7 < x" "x < w + 7" "x mod 7 = w"
  shows "x = w"
proof -
  have "(x - w) mod 7 = 0"
    using assms(5) by (metis cancel_comm_monoid_add_class.diff_cancel mod_0 mod_diff_left_eq)
  then have d: "7 dvd (x - w)" by (simp add: dvd_eq_mod_eq_0)
  show ?thesis
  proof (rule ccontr)
    assume "x \<noteq> w"
    then have nz: "x - w \<noteq> 0" by simp
    have "7 \<le> \<bar>x - w\<bar>" using d nz by (metis dvd_imp_le_int abs_numeral)
    then show False using assms(3,4) by linarith
  qed
qed


lemma weekday_range: "0 \<le> weekday now" "weekday now \<le> 6"
  by (simp_all add: weekday_def weekday_of_ordinal_def)

lemma days_ahead_bounds:
  assumes "0 \<le> w" "w \<le> 6"
  shows "1 \<le> days_ahead w now" "days_ahead w now \<le> 7"
  using weekday_range[of now] assms by (auto simp: days_ahead_eq)

lemma days_ahead_hits:
  assumes "0 \<le> w" "w \<le> 6"
  shows "weekday_of_ordinal (toordinal now + days_ahead w now) = w"
proof (cases "weekday now < w")
  case True
  then show ?thesis using assms by (simp add: weekday_shift days_ahead_eq)
next
  case False
  have "(weekday now + (w - weekday now + 7)) mod 7 = (w + 7) mod 7" by (simp add: algebra_simps)
  also have "\<dots> = w" using assms by simp
  finally show ?thesis using False assms by (simp add: weekday_shift days_ahead_eq)
qed

lemma days_ahead_first:
  assumes "0 \<le> w" "w \<le> 6" "1 \<le> j" "j < days_ahead w now"
  shows "weekday_of_ordinal (toordinal now + j) \<noteq> w"
proof
  assume h: "weekday_of_ordinal (toordinal now + j) = w"
  then have m: "(weekday now + j) mod 7 = w" by (simp add: weekday_shift)
  have r: "w - 7 < weekday now + j" "weekday now + j < w + 7"
    using weekday_range[of now] assms by (auto simp: days_ahead_eq split: if_splits)
  have "weekday now + j = w" by (rule mod7_in_range[OF assms(1,2) r m])
  then show False using assms weekday_range[of now] by (auto simp: days_ahead_eq split: if_splits)
qed

lemma days_ahead_same_day:
  assumes "0 \<le> w" "w \<le> 6" "weekday now = w"
  shows "days_ahead w now = 7"
  using assms by (simp add: days_ahead_eq)

lemma add_days_valid:
  assumes "valid_datetime now" and "0 \<le> k" and "k \<le> 30"
  shows "add_days now k =
           (if toordinal now + k \<le> max_ordinal then Inr (toordinal now + k) else Inl OverflowError)"
proof -
  have t: "0 \<le> time_of_day now" "time_of_day now < 86400000000"
    using assms(1) by (simp_all add: valid_datetime_def)
  have d: "time_of_day now div 86400000000 = 0"
    using t by (rule div_pos_pos_trivial)
  have p: "1 \<le> toordinal now" using assms(1) by (rule toordinal_pos)
  have a: "\<not> 999999999 < \<bar>k\<bar>" using assms(2,3) by simp
  have r: "1 \<le> toordinal now + k" using p assms(2) by simp
  show ?thesis
    unfolding add_days_def add_timedelta_def Let_def
    by (simp only: d a r div_0 mod_0 add_0_right if_False simp_thms)
qed

lemma weekday_names_target:
  assumes "map_of weekday_names name = Some w"
  shows "target_weekday (pattern_text name) = Some w" and "0 \<le> w" and "w \<le> 6"
  using assms target_weekday_table
  by (auto simp: weekday_names_def split: if_splits)

lemma extract_due_date_table:
  assumes "first_match (lower message) = Some (lit, days)"
  shows "extract_due_date now message =
           map_sum id Some
             (case days of
                Some n \<Rightarrow> add_days now n
              | None \<Rightarrow> add_days now (days_ahead (the (target_weekday (pattern_text lit))) now))"
  using assms
  by (simp add: extract_due_date_def due_date_loop_first_match split: option.splits)

text \<open>
  Claim C6. When the first pattern of the table found in the message is a day name, the
  date returned is the reference date plus \<open>days_ahead\<close> days, a number from 1 to 7: the
  result falls on the named weekday, no day strictly between the reference date and the
  result does, the result is never the reference date, and it is the reference date plus
  7 when the reference date already falls on that weekday. (A result beyond the last
  representable date, 9999-12-31, raises instead.)
\<close>

theorem weekday_resolution:
  assumes "first_match (lower message) = Some (name, None)"
    and "map_of weekday_names name = Some w"
    and "valid_datetime now"
  shows "1 \<le> days_ahead w now \<and> days_ahead w now \<le> 7
       \<and> weekday_of_ordinal (toordinal now + days_ahead w now) = w
       \<and> (\<forall>j. 1 \<le> j \<and> j < days_ahead w now \<longrightarrow> weekday_of_ordinal (toordinal now + j) \<noteq> w)
       \<and> (weekday now = w \<longrightarrow> days_ahead w now = 7)
       \<and> extract_due_date now message =
           (if toordinal now + days_ahead w now \<le> max_ordinal
            then Inr (Some (toordinal now + days_ahead w now)) else Inl OverflowError)
       \<and> extract_due_date now message \<noteq> Inr (Some (toordinal now))"
proof -
  note t = weekday_names_target[OF assms(2)]
  note b = days_ahead_bounds[OF t(2,3), of now]
  have hit: "weekday_of_ordinal (toordinal now + days_ahead w now) = w"
    by (rule days_ahead_hits[OF t(2,3)])
  have first: "\<forall>j. 1 \<le> j \<and> j < days_ahead w now \<longrightarrow> weekday_of_ordinal (toordinal now + j) \<noteq> w"
    using days_ahead_first[OF t(2,3)] by blast
  have same: "weekday now = w \<longrightarrow> days_ahead w now = 7"
    using days_ahead_same_day[OF t(2,3)] by blast
  have k: "0 \<le> days_ahead w now" "days_ahead w now \<le> 30" using b by simp_all
  have res: "extract_due_date now message =
           (if toordinal now + days_ahead w now \<le> max_ordinal
            then Inr (Some (toordinal now + days_ahead w now)) else Inl OverflowError)"
    by (simp add: extract_due_date_table[OF assms(1)] t(1) add_days_valid[OF assms(3) k])
  have ne: "extract_due_date now message \<noteq> Inr (Some (toordinal now))"
    using b(1) by (simp add: res)
  show ?thesis using b hit first same res ne by blast
qed

lemma weekday_first_match:
  assumes "\<not> search_word ''today'' s" and "\<not> search_word ''tomorrow'' s"
    and "\<not> search_word ''next week'' s" and "\<not> search_word ''next month'' s"
    and "find (\<lambda>(name, w). search_word name s) weekday_names = Some (name, w)"
  shows "first_match s = Some (name, None) \<and> target_weekday (pattern_text name) = Some w"
proof -
  from assms(5) obtain i where i: "i < length weekday_names" "weekday_names ! i = (name, w)"
    by (auto simp: find_Some_iff)
  have "(name, w) \<in> set weekday_names" using nth_mem[OF i(1)] i(2) by simp
  then have "map_of weekday_names name = Some w" by (auto simp: weekday_names_def)
  then have t: "target_weekday (pattern_text name) = Some w" by (rule weekday_names_target(1))
  have "first_match s = Some (name, None)"
    using assms by (simp add: first_match_def patterns_def weekday_names_def split: if_splits)
  then show ?thesis using t by simp
qed

text \<open>
  Claim C7, as the code has it. The table of patterns, with its numbers of days, is the
  one stated: today (+0), tomorrow (+1), next week (+7), next month (+30), then the day
  names Monday to Friday, and only then end of day (+0), eod (+0), end of week and eow;
  the entries without a number stand for the weekdays stated (end of week and eow for
  Friday). The patterns are tried in the order of the table and the first one found
  decides the result alone: a pattern with a number of days gives the reference date
  plus that number, a pattern without one gives the next occurrence of its weekday. The
  "in N units" rule is consulted only when no pattern of the table is found, and the
  explicit month and day only when that rule finds nothing either. In particular a
  message with none of the first four phrases and with a day name resolves to the next
  occurrence of the first day name of the table found in it, whether or not it also
  holds "end of day" or "eod".
\<close>

theorem table_order_first_match:
  "patterns =
     [(''today'', Some 0), (''tomorrow'', Some 1), (''next week'', Some 7),
      (''next month'', Some 30), (''monday'', None), (''tuesday'', None),
      (''wednesday'', None), (''thursday'', None), (''friday'', None),
      (''end of day'', Some 0), (''eod'', Some 0), (''end of week'', None), (''eow'', None)]
   \<and> map (\<lambda>(lit, days). (lit, target_weekday (pattern_text lit)))
         (filter (\<lambda>(lit, days). days = None) patterns) =
     [(''monday'', Some 0), (''tuesday'', Some 1), (''wednesday'', Some 2),
      (''thursday'', Some 3), (''friday'', Some 4), (''end of week'', Some 4), (''eow'', Some 4)]
   \<and> first_match (lower message) = find (\<lambda>(lit, days). search_word lit (lower message)) patterns
   \<and> (first_match (lower message) = Some (lit, Some n) \<longrightarrow>
        extract_due_date now message = map_sum id Some (add_days now n))
   \<and> (first_match (lower message) = Some (lit, None) \<longrightarrow>
        (\<exists>w. target_weekday (pattern_text lit) = Some w
            \<and> extract_due_date now message = map_sum id Some (add_days now (days_ahead w now))))
   \<and> (first_match (lower message) = None \<and> search_in_pattern (lower message) = Some (ds, u) \<longrightarrow>
        extract_due_date now message = map_sum id Some (in_pattern_date now ds u))
   \<and> (first_match (lower message) = None \<and> search_in_pattern (lower message) = None \<longrightarrow>
        extract_due_date now message =
          (case search_date_pattern message of
             Some (g1, g2) \<Rightarrow> Inr (explicit_date now (int_of_digits g1) (int_of_digits g2))
           | None \<Rightarrow> Inr None))
   \<and> (\<not> search_word ''today'' (lower message) \<and> \<not> search_word ''tomorrow'' (lower message)
        \<and> \<not> search_word ''next week'' (lower message)
        \<and> \<not> search_word ''next month'' (lower message)
        \<and> find (\<lambda>(name, w). search_word name (lower message)) weekday_names = Some (name, wd) \<longrightarrow>
        extract_due_date now message = map_sum id Some (add_days now (days_ahead wd now)))"
proof -
  have a: "patterns =
     [(''today'', Some 0), (''tomorrow'', Some 1), (''next week'', Some 7),
      (''next month'', Some 30), (''monday'', None), (''tuesday'', None),
      (''wednesday'', None), (''thursday'', None), (''friday'', None),
      (''end of day'', Some 0), (''eod'', Some 0), (''end of week'', None), (''eow'', None)]"
    by (simp add: patterns_def)
  have a2: "map (\<lambda>(lit, days). (lit, target_weekday (pattern_text lit)))
         (filter (\<lambda>(lit, days). days = None) patterns) =
     [(''monday'', Some 0), (''tuesday'', Some 1), (''wednesday'', Some 2),
      (''thursday'', Some 3), (''friday'', Some 4), (''end of week'', Some 4), (''eow'', Some 4)]"
    by (simp add: patterns_def target_weekday_table)
  have a3: "first_match (lower message) =
              find (\<lambda>(lit, days). search_word lit (lower message)) patterns"
    by (rule first_match_def)
  have b: "first_match (lower message) = Some (lit, Some n) \<longrightarrow>
        extract_due_date now message = map_sum id Some (add_days now n)"
    by (simp add: extract_due_date_table)
  have c: "first_match (lower message) = Some (lit, None) \<longrightarrow>
        (\<exists>w. target_weekday (pattern_text lit) = Some w
            \<and> extract_due_date now message = map_sum id Some (add_days now (days_ahead w now)))"
  proof
    assume h: "first_match (lower message) = Some (lit, None)"
    then have "(lit, None) \<in> set patterns" by (rule first_match_in_patterns)
    then have "target_weekday (pattern_text lit) \<noteq> None" by (rule patterns_targets)
    then obtain w where w: "target_weekday (pattern_text lit) = Some w" by blast
    show "\<exists>w. target_weekday (pattern_text lit) = Some w
            \<and> extract_due_date now message = map_sum id Some (add_days now (days_ahead w now))"
      using w by (simp add: extract_due_date_table[OF h])
  qed
  have d: "first_match (lower message) = None \<and> search_in_pattern (lower message) = Some (ds, u) \<longrightarrow>
        extract_due_date now message = map_sum id Some (in_pattern_date now ds u)"
    by (simp add: extract_due_date_def due_date_loop_first_match)
  have d2: "first_match (lower message) = None \<and> search_in_pattern (lower message) = None \<longrightarrow>
        extract_due_date now message =
          (case search_date_pattern message of
             Some (g1, g2) \<Rightarrow> Inr (explicit_date now (int_of_digits g1) (int_of_digits g2))
           | None \<Rightarrow> Inr None)"
    by (simp add: extract_due_date_def due_date_loop_first_match)
  have e: "\<not> search_word ''today'' (lower message) \<and> \<not> search_word ''tomorrow'' (lower message)
        \<and> \<not> search_word ''next week'' (lower message)
        \<and> \<not> search_word ''next month'' (lower message)
        \<and> find (\<lambda>(name, w). search_word name (lower message)) weekday_names = Some (name, wd) \<longrightarrow>
        extract_due_date now message = map_sum id Some (add_days now (days_ahead wd now))"
  proof
    assume h: "\<not> search_word ''today'' (lower message) \<and> \<not> search_word ''tomorrow'' (lower message)
        \<and> \<not> search_word ''next week'' (lower message)
        \<and> \<not> search_word ''next month'' (lower message)
        \<and> find (\<lambda>(name, w). search_word name (lower message)) weekday_names = Some (name, wd)"
    then have f: "first_match (lower message) = Some (name, None)"
      and t: "target_weekday (pattern_text name) = Some wd"
      using weekday_first_match[of "lower message" name wd] by simp_all
    show "extract_due_date now message = map_sum id Some (add_days now (days_ahead wd now))"
      using t by (simp add: extract_due_date_table[OF f])
  qed
  show ?thesis using a a2 a3 b c d d2 e by blast
qed

theorem weekday_resolution_witness:
  "extract_due_date \<lparr>year = 2026, month = 11, day = 2, time_of_day = 36000000000\<rparr>
     ''let's meet Monday'' = Inr (Some 739929)
   \<and> toordinal \<lparr>year = 2026, month = 11, day = 2, time_of_day = 36000000000\<rparr> = 739922
   \<and> weekday \<lparr>year = 2026, month = 11, day = 2, time_of_day = 36000000000\<rparr> = 0"
proof -
  let ?now = "\<lparr>year = 2026, month = 11, day = 2, time_of_day = 36000000000\<rparr>"
  have h1: "first_match (lower ''let's meet Monday'') = Some (''monday'', None)" by code_simp
  have h2: "map_of weekday_names ''monday'' = Some 0" by code_simp
  have h3: "valid_datetime ?now" by code_simp
  have o: "toordinal ?now = 739922" by code_simp
  have w: "weekday ?now = 0" by code_simp
  have k: "days_ahead 0 ?now = 7" by code_simp
  have m: "max_ordinal = 3652059" by (simp add: max_ordinal_def)
  show ?thesis using weekday_resolution[OF h1 h2 h3] by (simp add: o w k m)
qed

theorem table_order_first_match_witness:
  "extract_due_date \<lparr>year = 2026, month = 11, day = 2, time_of_day = 36000000000\<rparr>
     ''send the report by eod friday'' = Inr (Some 739926)
   \<and> extract_due_date \<lparr>year = 2026, month = 11, day = 2, time_of_day = 36000000000\<rparr>
     ''send the report by eod'' = Inr (Some 739922)
   \<and> extract_due_date \<lparr>year = 2026, month = 11, day = 2, time_of_day = 36000000000\<rparr>
     ''call me tomorrow or friday'' = Inr (Some 739923)
   \<and> extract_due_date \<lparr>year = 2026, month = 11, day = 2, time_of_day = 36000000000\<rparr>
     ''ship it in 3 days'' = Inr (Some 739925)
   \<and> extract_due_date \<lparr>year = 2026, month = 11, day = 2, time_of_day = 36000000000\<rparr>
     ''ship it on 12/24'' = Inr (Some (ymd2ord 2026 12 24))"
proof -
  let ?now = "\<lparr>year = 2026, month = 11, day = 2, time_of_day = 36000000000\<rparr>"
  have n1: "\<not> search_word ''today'' (lower ''send the report by eod friday'')
        \<and> \<not> search_word ''tomorrow'' (lower ''send the report by eod friday'')
        \<and> \<not> search_word ''next week'' (lower ''send the report by eod friday'')
        \<and> \<not> search_word ''next month'' (lower ''send the report by eod friday'')
        \<and> find (\<lambda>(name, w). search_word name (lower ''send the report by eod friday''))
              weekday_names = Some (''friday'', 4)"
    by code_simp
  have h2: "first_match (lower ''send the report by eod'') = Some (''eod'', Some 0)"
    by code_simp
  have h3: "first_match (lower ''call me tomorrow or friday'') = Some (''tomorrow'', Some 1)"
    by code_simp
  have h4: "first_match (lower ''ship it in 3 days'') = None
              \<and> search_in_pattern (lower ''ship it in 3 days'') = Some (''3'', Day)"
    by code_simp
  have h5: "first_match (lower ''ship it on 12/24'') = None
              \<and> search_in_pattern (lower ''ship it on 12/24'') = None"
    by code_simp
  have g5: "search_date_pattern ''ship it on 12/24'' = Some (''12'', ''24'')" by code_simp
  have x5: "explicit_date ?now (int_of_digits ''12'') (int_of_digits ''24'') = Some (ymd2ord 2026 12 24)"
    by code_simp
  have a: "add_days ?now (days_ahead 4 ?now) = Inr 739926" by code_simp
  have b: "add_days ?now 0 = Inr 739922" by code_simp
  have c: "add_days ?now 1 = Inr 739923" by code_simp
  have d: "in_pattern_date ?now ''3'' Day = Inr 739925" by code_simp
  have r1: "extract_due_date ?now ''send the report by eod friday'' = Inr (Some 739926)"
    using table_order_first_match[where message = "''send the report by eod friday''"
        and now = ?now and name = "''friday''" and wd = 4,
        THEN conjunct2, THEN conjunct2, THEN conjunct2, THEN conjunct2, THEN conjunct2,
        THEN conjunct2, THEN conjunct2, THEN mp, OF n1]
    by (simp only: a map_sum.simps id_apply)
  have r2: "extract_due_date ?now ''send the report by eod'' = Inr (Some 739922)"
    using table_order_first_match[where message = "''send the report by eod''"
        and now = ?now and lit = "''eod''" and n = 0,
        THEN conjunct2, THEN conjunct2, THEN conjunct2, THEN conjunct1, THEN mp, OF h2]
    by (simp only: b map_sum.simps id_apply)
  have r3: "extract_due_date ?now ''call me tomorrow or friday'' = Inr (Some 739923)"
    using table_order_first_match[where message = "''call me tomorrow or friday''"
        and now = ?now and lit = "''tomorrow''" and n = 1,
        THEN conjunct2, THEN conjunct2, THEN conjunct2, THEN conjunct1, THEN mp, OF h3]
    by (simp only: c map_sum.simps id_apply)
  have r4: "extract_due_date ?now ''ship it in 3 days'' = Inr (Some 739925)"
    using table_order_first_match[where message = "''ship it in 3 days''"
        and now = ?now and ds = "''3''" and u = Day,
        THEN conjunct2, THEN conjunct2, THEN conjunct2, THEN conjunct2, THEN conjunct2,
        THEN conjunct1, THEN mp, OF h4]
    by (simp only: d map_sum.simps id_apply)
  have r5: "extract_due_date ?now ''ship it on 12/24'' = Inr (Some (ymd2ord 2026 12 24))"
    using table_order_first_match[where message = "''ship it on 12/24''" and now = ?now,
        THEN conjunct2, THEN conjunct2, THEN conjunct2, THEN conjunct2, THEN conjunct2,
        THEN conjunct2, THEN conjunct1, THEN mp, OF h5]
    by (simp only: g5 x5 option.case prod.case)
  show ?thesis using r1 r2 r3 r4 r5 by (intro conjI)
qed

text \<open>
  The claim as written fails: a message with both "eod" and a day name resolves to the
  day name, here the Friday four days after a Monday, not to the reference date.
\<close>

theorem eod_weekday_counterexample:
  "search_word ''eod'' (lower ''send the report by eod friday'')
   \<and> search_word ''friday'' (lower ''send the report by eod friday'')
   \<and> toordinal \<lparr>year = 2026, month = 11, day = 2, time_of_day = 36000000000\<rparr> = 739922
   \<and> extract_due_date \<lparr>year = 2026, month = 11, day = 2, time_of_day = 36000000000\<rparr>
       ''send the report by eod friday'' = Inr (Some 739926)"
  by code_simp

text \<open>
  Claim C8 at a failing input. A message naming the month and day of the reference date
  itself, analysed at 10:00 on that day, resolves to the following year: the comparison
  is between midnight of the named date and the current time. At exactly midnight the
  same message resolves to the reference year. An impossible date gives \<open>None\<close>.
\<close>

theorem explicit_date_same_day:
  "extract_due_date \<lparr>year = 2026, month = 11, day = 4, time_of_day = 36000000000\<rparr>
     ''report due 11/04'' = Inr (Some (ymd2ord 2027 11 4))
   \<and> extract_due_date \<lparr>year = 2026, month = 11, day = 4, time_of_day = 0\<rparr>
     ''report due 11/04'' = Inr (Some (ymd2ord 2026 11 4))
   \<and> ymd2ord 2026 11 4 = toordinal \<lparr>year = 2026, month = 11, day = 4, time_of_day = 36000000000\<rparr>
   \<and> ymd2ord 2027 11 4 = ymd2ord 2026 11 4 + 365
   \<and> extract_due_date \<lparr>year = 2026, month = 11, day = 4, time_of_day = 36000000000\<rparr>
     ''report due 13/40'' = Inr None"
  by code_simp

section \<open>Properties of the analysis results\<close>

lemma clamp_unit: "in_unit_interval (py_max (Finite 0) (py_min (Finite 1) c))"
  by (cases c) (simp_all add: py_min_def py_max_def)

lemma validate_confidence:
  "validate_result rp fs st result = Inr v \<Longrightarrow> in_unit_interval (v_confidence v)"
  using clamp_unit
  by (auto simp: validate_result_def Let_def split: sum.splits json.splits if_splits)

lemma safe_default_confidence: "in_unit_interval (v_confidence (safe_default e))"
  by (simp add: safe_default_def)

lemma llama_confidence:
  "in_unit_interval (v_confidence (llama_analyze_message rp fs st parsed))"
  using validate_confidence safe_default_confidence
  by (auto simp: llama_analyze_message_def split: sum.splits)

lemma wrapper_confidence:
  assumes "strat \<noteq> OpenAI"
  shows "case confidence_entry (ai_analyze strat e message sender channel) of
           None \<Rightarrow> True
         | Some j \<Rightarrow> (\<exists>c. j = JFloat c \<and> in_unit_interval c)"
proof (cases strat)
  case OpenAI
  then show ?thesis using assms by simp
next
  case Llama
  then show ?thesis
    using llama_confidence[of "env_repr e" "env_float_of_str e" "env_stamp e" "llama_parsed e"]
    by (simp add: ai_analyze_def Let_def split: option.splits)
next
  case Simple
  then show ?thesis
    using simple_confidence[of "env_set_order e" "env_today e" "env_stamp e" message]
    by (auto simp: ai_analyze_def split: option.splits sum.splits)
qed

lemma startswith_prefix: "startswith s (p @ q) \<Longrightarrow> startswith s p"
  by (induction s p rule: startswith.induct) auto

lemma contains_prefix: "contains s (p @ q) \<Longrightarrow> contains s p"
  by (induction s) (auto dest: startswith_prefix)

lemma no_keyword_no_indicator:
  assumes "task_score s = 0"
  shows "\<not> contains_any s strong_indicators"
proof -
  have "\<forall>k\<in>set task_keywords. \<not> contains s k"
    using assms by (simp add: task_score_def filter_empty_conv)
  then have k: "\<not> contains s ''remind''" "\<not> contains s ''don't forget''"
    "\<not> contains s ''need to''" "\<not> contains s ''have to''" "\<not> contains s ''please''"
    by (simp_all add: task_keywords_def)
  have "\<not> contains s (''remind'' @ '' me'')" using k(1) contains_prefix by blast
  then have "\<not> contains s ''remind me''" by simp
  then show ?thesis using k by (simp add: contains_any_def strong_indicators_def)
qed

lemma no_keyword_result:
  assumes "task_score (lower message) = 0"
  shows "\<exists>r. analyze_message order now st message = Inr r \<and> is_task r = False
            \<and> confidence r = 0.7"
proof -
  have "\<not> decide_is_task message"
    using assms no_keyword_no_indicator[OF assms] by (simp add: decide_is_task_def Let_def)
  then show ?thesis using assms by (simp add: analyze_message_def base_confidence_def)
qed

lemma analyze_task_result:
  assumes "decide_is_task m" and "\<not> isl (extract_task_details order now m)"
  shows "\<exists>r td. analyze_message order now st m = Inr r \<and> is_task r \<and> task_details r = Some td"
  using assms by (auto simp: analyze_message_def split: sum.splits)

lemma simple_priority_value:
  "analyze_message order now st m = Inr r \<Longrightarrow> task_details r = Some td \<Longrightarrow>
     priority td = make_priority (lower m)"
  by (auto simp: analyze_message_def extract_task_details_def split: if_splits sum.splits)

lemma validate_iff:
  "validate_result rp fs st result = Inr v \<Longrightarrow>
     (v_task_details v \<noteq> None \<longleftrightarrow>
        truthy (v_is_task v) \<and> truthy (dict_get result ''task_details'' JNull))"
  by (auto simp: validate_result_def Let_def split: sum.splits json.splits if_splits)

lemma validate_priority:
  "validate_result rp fs st result = Inr v \<Longrightarrow> v_task_details v = Some ld \<Longrightarrow>
     dict_get result ''task_details'' JNull = JObj details \<Longrightarrow>
     l_priority ld =
       (if dict_get details ''priority'' (JStr ''medium'') \<in> {JStr ''low'', JStr ''medium'', JStr ''high''}
        then dict_get details ''priority'' (JStr ''medium'') else JStr ''medium'')"
  by (auto simp: validate_result_def Let_def split: sum.splits json.splits if_splits)

lemma validate_priority_range:
  "validate_result rp fs st result = Inr v \<Longrightarrow> v_task_details v = Some ld \<Longrightarrow>
     l_priority ld \<in> {JStr ''low'', JStr ''medium'', JStr ''high''}"
  by (auto simp: validate_result_def Let_def split: sum.splits json.splits if_splits)

lemma llama_details_is_task:
  "v_task_details (llama_analyze_message rp fs st parsed) \<noteq> None \<Longrightarrow>
     truthy (v_is_task (llama_analyze_message rp fs st parsed))"
  using validate_iff
  by (auto simp: llama_analyze_message_def safe_default_def split: sum.splits)

lemma llama_priority_range:
  "v_task_details (llama_analyze_message rp fs st parsed) = Some ld \<Longrightarrow>
     l_priority ld \<in> {JStr ''low'', JStr ''medium'', JStr ''high''}"
  using validate_priority_range
  by (auto simp: llama_analyze_message_def safe_default_def split: sum.splits)

text \<open>
  Claim C2, as the code has it. The confidence of the rule-based analyzer, whenever it
  returns a result, lies between 0 and 1, and a message with no keyword at all (the empty
  message among them) does get a result, with confidence 0.7. The confidence of the
  model-backed analyzer always lies between 0 and 1: the value of the reply is clamped,
  and a failure gives 0. The strategy-selecting analyzer, when it delegates to one of
  these two, returns a dictionary with no confidence (after an error) or with a
  confidence between 0 and 1. With its OpenAI strategy it returns the parsed reply
  unchanged, or the error dictionary when the call fails. (Confidences are computed over
  the reals.)
\<close>

theorem confidence_bounds:
  "(analyze_message order now st message = Inr r \<longrightarrow> 0 \<le> confidence r \<and> confidence r \<le> 1)
   \<and> (task_score (lower message) = 0 \<longrightarrow>
        (\<exists>r'. analyze_message order now st message = Inr r' \<and> is_task r' = False
              \<and> confidence r' = 0.7))
   \<and> in_unit_interval (v_confidence (llama_analyze_message rp fs st parsed))
   \<and> (strat \<noteq> OpenAI \<longrightarrow>
        (case confidence_entry (ai_analyze strat e message sender channel) of
           None \<Rightarrow> True
         | Some j \<Rightarrow> (\<exists>c. j = JFloat c \<and> in_unit_interval c)))
   \<and> ai_analyze OpenAI e message sender channel =
        (case openai_reply e of Inr reply \<Rightarrow> Raw reply | Inl err \<Rightarrow> Failed err)"
proof -
  have a: "analyze_message order now st message = Inr r \<longrightarrow> 0 \<le> confidence r \<and> confidence r \<le> 1"
    using simple_confidence by blast
  have b: "task_score (lower message) = 0 \<longrightarrow>
        (\<exists>r'. analyze_message order now st message = Inr r' \<and> is_task r' = False
              \<and> confidence r' = 0.7)"
    using no_keyword_result by blast
  have c: "in_unit_interval (v_confidence (llama_analyze_message rp fs st parsed))"
    by (rule llama_confidence)
  have d: "strat \<noteq> OpenAI \<longrightarrow>
        (case confidence_entry (ai_analyze strat e message sender channel) of
           None \<Rightarrow> True
         | Some j \<Rightarrow> (\<exists>c. j = JFloat c \<and> in_unit_interval c))"
    using wrapper_confidence by blast
  have f: "ai_analyze OpenAI e message sender channel =
        (case openai_reply e of Inr reply \<Rightarrow> Raw reply | Inl err \<Rightarrow> Failed err)"
    by (simp add: ai_analyze_def)
  show ?thesis using a b c d f by blast
qed

theorem confidence_bounds_witness:
  "(\<exists>r. analyze_message (\<lambda>t. t)
           \<lparr>year = 2026, month = 11, day = 2, time_of_day = 36000000000\<rparr>
           \<lparr>year = 2026, month = 11, day = 2, time_of_day = 36000000001\<rparr> '''' = Inr r
        \<and> confidence r = 0.7 \<and> 0 \<le> confidence r \<and> confidence r \<le> 1)
   \<and> in_unit_interval (v_confidence (llama_analyze_message (\<lambda>j. []) (\<lambda>s. None)
           \<lparr>year = 2026, month = 11, day = 2, time_of_day = 36000000001\<rparr>
           (Inr [(''is_task'', JBool True), (''confidence'', JFloat (Finite 7))])))
   \<and> v_confidence (llama_analyze_message (\<lambda>j. []) (\<lambda>s. None)
           \<lparr>year = 2026, month = 11, day = 2, time_of_day = 36000000001\<rparr>
           (Inr [(''is_task'', JBool True), (''confidence'', JFloat (Finite 7))])) = Finite 1
   \<and> (\<exists>c. confidence_entry (ai_analyze Simple
           \<lparr>openai_reply = Inl (Exception ''not configured''),
            llama_parsed = Inl (Exception ''not loaded''),
            env_repr = (\<lambda>j. []), env_float_of_str = (\<lambda>s. None), env_set_order = (\<lambda>t. t),
            env_today = \<lparr>year = 2026, month = 11, day = 2, time_of_day = 36000000000\<rparr>,
            env_stamp = \<lparr>year = 2026, month = 11, day = 2, time_of_day = 36000000001\<rparr>\<rparr>
           '''' ''U1'' ''general'') = Some (JFloat c) \<and> in_unit_interval c)"
proof -
  let ?now = "\<lparr>year = 2026, month = 11, day = 2, time_of_day = 36000000000\<rparr>"
  let ?st = "\<lparr>year = 2026, month = 11, day = 2, time_of_day = 36000000001\<rparr>"
  let ?parsed = "Inr [(''is_task'', JBool True), (''confidence'', JFloat (Finite 7))]
                   :: py_error + (string \<times> json) list"
  let ?e = "\<lparr>openai_reply = Inl (Exception ''not configured''),
            llama_parsed = Inl (Exception ''not loaded''),
            env_repr = (\<lambda>j. []), env_float_of_str = (\<lambda>s. None), env_set_order = (\<lambda>t. t),
            env_today = ?now, env_stamp = ?st\<rparr>"
  have s: "task_score (lower '''') = 0" by code_simp
  have n: "Simple \<noteq> OpenAI" by simp
  have v: "v_confidence (llama_analyze_message (\<lambda>j. []) (\<lambda>s. None) ?st ?parsed) = Finite 1"
    by (simp add: llama_analyze_message_def validate_result_def dict_get_def py_float_def
          py_min_def py_max_def Let_def)
  note t = confidence_bounds[where order = "\<lambda>t. t" and now = ?now and st = ?st and message = "''''"
             and rp = "\<lambda>j. []" and fs = "\<lambda>s. None" and parsed = ?parsed and strat = Simple
             and e = ?e and sender = "''U1''" and channel = "''general''"]
  from t s obtain r' where r': "analyze_message (\<lambda>t. t) ?now ?st '''' = Inr r'"
    "confidence r' = 0.7" by blast
  from t r'(1) have bnd: "0 \<le> confidence r' \<and> confidence r' \<le> 1" by blast
  have w: "confidence_entry (ai_analyze Simple ?e '''' ''U1'' ''general'')
             = Some (JFloat (Finite (confidence r')))"
    using r'(1) by (simp add: ai_analyze_def split: option.splits)
  from t n w have "in_unit_interval (Finite (confidence r'))" by simp
  then show ?thesis using r' bnd v w t by blast
qed

text \<open>
  Claim C2 as stated fails for the OpenAI strategy of the strategy-selecting analyzer: a
  reply with confidence 1.5 is returned as it is, and after a failed call the dictionary
  returned has no confidence at all.
\<close>

theorem openai_confidence_counterexample:
  "confidence_entry (ai_analyze OpenAI
      \<lparr>openai_reply = Inr (JObj [(''contains_task'', JBool True), (''tasks'', JList []),
                                 (''confidence'', JFloat (Finite (3/2))), (''context'', JStr '''')]),
       llama_parsed = Inl (Exception ''not loaded''),
       env_repr = (\<lambda>j. []), env_float_of_str = (\<lambda>s. None), env_set_order = (\<lambda>t. t),
       env_today = \<lparr>year = 2026, month = 11, day = 2, time_of_day = 36000000000\<rparr>,
       env_stamp = \<lparr>year = 2026, month = 11, day = 2, time_of_day = 36000000001\<rparr>\<rparr>
      ''please fix the build'' ''U1'' ''general'') = Some (JFloat (Finite (3/2)))
   \<and> \<not> in_unit_interval (Finite (3/2))
   \<and> confidence_entry (ai_analyze OpenAI
      \<lparr>openai_reply = Inl (Exception ''connection refused''),
       llama_parsed = Inl (Exception ''not loaded''),
       env_repr = (\<lambda>j. []), env_float_of_str = (\<lambda>s. None), env_set_order = (\<lambda>t. t),
       env_today = \<lparr>year = 2026, month = 11, day = 2, time_of_day = 36000000000\<rparr>,
       env_stamp = \<lparr>year = 2026, month = 11, day = 2, time_of_day = 36000000001\<rparr>\<rparr>
      ''please fix the build'' ''U1'' ''general'') = None"
  by (simp add: ai_analyze_def)

text \<open>
  Claim C3, as the code has it. In a result of the rule-based analyzer the task details
  are present exactly when \<open>is_task\<close> is true. In a result of \<open>_validate_result\<close> they are
  present exactly when \<open>is_task\<close> is a true value and the reply holds a true value under
  \<open>task_details\<close>; so in every result of the model-backed analyzer present task details
  imply a true \<open>is_task\<close>, but not the converse.
\<close>

theorem task_details_presence:
  "(analyze_message order now st message = Inr r \<longrightarrow> (is_task r \<longleftrightarrow> task_details r \<noteq> None))
   \<and> (validate_result rp fs st result = Inr v \<longrightarrow>
        (v_task_details v \<noteq> None \<longleftrightarrow>
           truthy (v_is_task v) \<and> truthy (dict_get result ''task_details'' JNull)))
   \<and> (v_task_details (llama_analyze_message rp fs st parsed) \<noteq> None \<longrightarrow>
        truthy (v_is_task (llama_analyze_message rp fs st parsed)))"
proof -
  have a: "analyze_message order now st message = Inr r \<longrightarrow>
             (is_task r \<longleftrightarrow> task_details r \<noteq> None)"
    using simple_iff by blast
  have b: "validate_result rp fs st result = Inr v \<longrightarrow>
        (v_task_details v \<noteq> None \<longleftrightarrow>
           truthy (v_is_task v) \<and> truthy (dict_get result ''task_details'' JNull))"
    using validate_iff by blast
  have c: "v_task_details (llama_analyze_message rp fs st parsed) \<noteq> None \<longrightarrow>
        truthy (v_is_task (llama_analyze_message rp fs st parsed))"
    using llama_details_is_task by blast
  show ?thesis using a b c by blast
qed

theorem task_details_presence_witness:
  "(\<exists>r. analyze_message (\<lambda>t. t)
           \<lparr>year = 2026, month = 11, day = 2, time_of_day = 36000000000\<rparr>
           \<lparr>year = 2026, month = 11, day = 2, time_of_day = 36000000001\<rparr>
           ''please fix the login bug'' = Inr r
        \<and> is_task r \<and> task_details r \<noteq> None)
   \<and> (\<exists>v. validate_result (\<lambda>j. []) (\<lambda>s. None)
           \<lparr>year = 2026, month = 11, day = 2, time_of_day = 36000000001\<rparr>
           [(''is_task'', JBool True), (''confidence'', JFloat (Finite (4/5))),
            (''task_details'', JObj [(''title'', JStr ''Fix the login bug'')])] = Inr v
        \<and> truthy (v_is_task v) \<and> v_task_details v \<noteq> None)
   \<and> truthy (v_is_task (llama_analyze_message (\<lambda>j. []) (\<lambda>s. None)
           \<lparr>year = 2026, month = 11, day = 2, time_of_day = 36000000001\<rparr>
           (Inr [(''is_task'', JBool True), (''confidence'', JFloat (Finite (4/5))),
                 (''task_details'', JObj [(''title'', JStr ''Fix the login bug'')])])))"
proof -
  let ?now = "\<lparr>year = 2026, month = 11, day = 2, time_of_day = 36000000000\<rparr>"
  let ?st = "\<lparr>year = 2026, month = 11, day = 2, time_of_day = 36000000001\<rparr>"
  let ?m = "''please fix the login bug''"
  let ?res = "[(''is_task'', JBool True), (''confidence'', JFloat (Finite (4/5))),
               (''task_details'', JObj [(''title'', JStr ''Fix the login bug'')])]"
  have d: "decide_is_task ?m" by code_simp
  have x: "\<not> isl (extract_task_details (\<lambda>t. t) ?now ?m)" by code_simp
  from analyze_task_result[OF d x, of ?st]
  obtain r0 where r0: "analyze_message (\<lambda>t. t) ?now ?st ?m = Inr r0" "is_task r0" by blast
  have g1: "dict_get ?res ''task_details'' JNull = JObj [(''title'', JStr ''Fix the login bug'')]"
    by (simp add: dict_get_def)
  have g2: "dict_get ?res ''is_task'' (JBool False) = JBool True" by (simp add: dict_get_def)
  have g3: "dict_get ?res ''confidence'' (JFloat (Finite 0)) = JFloat (Finite (4/5))"
    by (simp add: dict_get_def)
  have "\<exists>v. validate_result (\<lambda>j. []) (\<lambda>s. None) ?st ?res = Inr v \<and> truthy (v_is_task v)"
    by (simp add: validate_result_def g1 g2 g3 py_float_def Let_def)
  then obtain v0 where v0: "validate_result (\<lambda>j. []) (\<lambda>s. None) ?st ?res = Inr v0"
    "truthy (v_is_task v0)" by blast
  have tr: "truthy (dict_get ?res ''task_details'' JNull)" by (simp add: g1)
  have lv: "llama_analyze_message (\<lambda>j. []) (\<lambda>s. None) ?st (Inr ?res) = v0"
    by (simp add: llama_analyze_message_def v0(1))
  note t = task_details_presence[where order = "\<lambda>t. t" and now = ?now and st = ?st
      and message = ?m and r = r0 and rp = "\<lambda>j. []" and fs = "\<lambda>s. None" and result = ?res
      and v = v0 and parsed = "Inr ?res"]
  from t r0 have a: "task_details r0 \<noteq> None" by blast
  from t v0 tr have b: "v_task_details v0 \<noteq> None" by blast
  from t b lv have c: "truthy (v_is_task (llama_analyze_message (\<lambda>j. []) (\<lambda>s. None) ?st (Inr ?res)))"
    by simp
  show ?thesis using r0 a v0 b c by blast
qed

text \<open>
  Claim C3 as stated fails for the model-backed analyzer: a reply with \<open>is_task\<close> true
  and no task details (the key missing, or \<open>null\<close>) is returned with \<open>is_task\<close> true and
  \<open>task_details\<close> \<open>None\<close>.
\<close>

theorem llama_task_without_details_counterexample:
  "v_is_task (llama_analyze_message (\<lambda>j. []) (\<lambda>s. None)
       \<lparr>year = 2026, month = 11, day = 2, time_of_day = 36000000001\<rparr>
       (Inr [(''is_task'', JBool True), (''confidence'', JFloat (Finite (9/10)))])) = JBool True
   \<and> v_task_details (llama_analyze_message (\<lambda>j. []) (\<lambda>s. None)
       \<lparr>year = 2026, month = 11, day = 2, time_of_day = 36000000001\<rparr>
       (Inr [(''is_task'', JBool True), (''confidence'', JFloat (Finite (9/10)))])) = None
   \<and> v_is_task (llama_analyze_message (\<lambda>j. []) (\<lambda>s. None)
       \<lparr>year = 2026, month = 11, day = 2, time_of_day = 36000000001\<rparr>
       (Inr [(''is_task'', JBool True), (''confidence'', JFloat (Finite (9/10))),
             (''task_details'', JNull)])) = JBool True
   \<and> v_task_details (llama_analyze_message (\<lambda>j. []) (\<lambda>s. None)
       \<lparr>year = 2026, month = 11, day = 2, time_of_day = 36000000001\<rparr>
       (Inr [(''is_task'', JBool True), (''confidence'', JFloat (Finite (9/10))),
             (''task_details'', JNull)])) = None
   \<and> v_is_task (llama_analyze_message (\<lambda>j. []) (\<lambda>s. None)
       \<lparr>year = 2026, month = 11, day = 2, time_of_day = 36000000001\<rparr>
       (Inr [(''is_task'', JBool True), (''confidence'', JFloat (Finite (9/10))),
             (''task_details'', JObj [])])) = JBool True
   \<and> v_task_details (llama_analyze_message (\<lambda>j. []) (\<lambda>s. None)
       \<lparr>year = 2026, month = 11, day = 2, time_of_day = 36000000001\<rparr>
       (Inr [(''is_task'', JBool True), (''confidence'', JFloat (Finite (9/10))),
             (''task_details'', JObj [])])) = None"
  by (simp add: llama_analyze_message_def validate_result_def dict_get_def py_float_def Let_def)

text \<open>
  Claim C10. The priority in the task details of the rule-based analyzer is one of "low",
  "medium" and "high", never "urgent", and it is "high" whenever the message holds one of
  the high-priority words (urgent, asap, critical, important, immediately). The priority
  in the task details of the model-backed analyzer is one of the same three strings:
  \<open>_validate_result\<close> keeps the priority of the reply when it is one of them and replaces
  any other value, "urgent" included, by "medium".
\<close>

theorem priority_range:
  "high_priority_words = [''urgent'', ''asap'', ''critical'', ''important'', ''immediately'']
   \<and> (analyze_message order now st message = Inr r \<longrightarrow> task_details r = Some td \<longrightarrow>
      priority td \<in> {''low'', ''medium'', ''high''} \<and> priority td \<noteq> ''urgent''
      \<and> (contains_any (lower message) high_priority_words \<longrightarrow> priority td = ''high''))
   \<and> (v_task_details (llama_analyze_message rp fs st parsed) = Some ld \<longrightarrow>
        l_priority ld \<in> {JStr ''low'', JStr ''medium'', JStr ''high''})
   \<and> (validate_result rp fs st result = Inr v \<longrightarrow> v_task_details v = Some ld' \<longrightarrow>
        dict_get result ''task_details'' JNull = JObj details \<longrightarrow>
        l_priority ld' =
          (if dict_get details ''priority'' (JStr ''medium'')
                \<in> {JStr ''low'', JStr ''medium'', JStr ''high''}
           then dict_get details ''priority'' (JStr ''medium'') else JStr ''medium''))"
proof -
  have a: "analyze_message order now st message = Inr r \<longrightarrow> task_details r = Some td \<longrightarrow>
      priority td \<in> {''low'', ''medium'', ''high''} \<and> priority td \<noteq> ''urgent''
      \<and> (contains_any (lower message) high_priority_words \<longrightarrow> priority td = ''high'')"
  proof (intro impI)
    assume h: "analyze_message order now st message = Inr r" "task_details r = Some td"
    have p: "priority td = make_priority (lower message)" by (rule simple_priority_value[OF h])
    have r: "priority td \<in> {''low'', ''medium'', ''high''}" by (rule simple_priority[OF h])
    then have u: "priority td \<noteq> ''urgent''" by auto
    have k: "contains_any (lower message) high_priority_words \<longrightarrow> priority td = ''high''"
      by (simp add: p make_priority_def)
    show "priority td \<in> {''low'', ''medium'', ''high''} \<and> priority td \<noteq> ''urgent''
      \<and> (contains_any (lower message) high_priority_words \<longrightarrow> priority td = ''high'')"
      using r u k by blast
  qed
  have b: "v_task_details (llama_analyze_message rp fs st parsed) = Some ld \<longrightarrow>
        l_priority ld \<in> {JStr ''low'', JStr ''medium'', JStr ''high''}"
    using llama_priority_range by blast
  have c: "validate_result rp fs st result = Inr v \<longrightarrow> v_task_details v = Some ld' \<longrightarrow>
        dict_get result ''task_details'' JNull = JObj details \<longrightarrow>
        l_priority ld' =
          (if dict_get details ''priority'' (JStr ''medium'')
                \<in> {JStr ''low'', JStr ''medium'', JStr ''high''}
           then dict_get details ''priority'' (JStr ''medium'') else JStr ''medium'')"
    using validate_priority by blast
  have w: "high_priority_words = [''urgent'', ''asap'', ''critical'', ''important'', ''immediately'']"
    by (simp add: high_priority_words_def)
  show ?thesis using w a b c by blast
qed

theorem priority_range_witness:
  "(\<exists>r td. analyze_message (\<lambda>t. t)
           \<lparr>year = 2026, month = 11, day = 2, time_of_day = 36000000000\<rparr>
           \<lparr>year = 2026, month = 11, day = 2, time_of_day = 36000000001\<rparr>
           ''This is urgent, please fix the login bug'' = Inr r
        \<and> task_details r = Some td \<and> priority td = ''high'' \<and> priority td \<noteq> ''urgent'')
   \<and> (\<exists>v ld. validate_result (\<lambda>j. []) (\<lambda>s. None)
           \<lparr>year = 2026, month = 11, day = 2, time_of_day = 36000000001\<rparr>
           [(''is_task'', JBool True), (''confidence'', JFloat (Finite (4/5))),
            (''task_details'', JObj [(''title'', JStr ''Fix the login bug''),
                                     (''priority'', JStr ''urgent'')])] = Inr v
        \<and> v_task_details v = Some ld \<and> l_priority ld = JStr ''medium'')
   \<and> (\<exists>ld. v_task_details (llama_analyze_message (\<lambda>j. []) (\<lambda>s. None)
           \<lparr>year = 2026, month = 11, day = 2, time_of_day = 36000000001\<rparr>
           (Inr [(''is_task'', JBool True), (''confidence'', JFloat (Finite (4/5))),
                 (''task_details'', JObj [(''title'', JStr ''Fix the login bug''),
                                          (''priority'', JStr ''urgent'')])])) = Some ld
        \<and> l_priority ld \<in> {JStr ''low'', JStr ''medium'', JStr ''high''})"
proof -
  let ?now = "\<lparr>year = 2026, month = 11, day = 2, time_of_day = 36000000000\<rparr>"
  let ?st = "\<lparr>year = 2026, month = 11, day = 2, time_of_day = 36000000001\<rparr>"
  let ?m = "''This is urgent, please fix the login bug''"
  let ?details = "[(''title'', JStr ''Fix the login bug''), (''priority'', JStr ''urgent'')]"
  let ?res = "[(''is_task'', JBool True), (''confidence'', JFloat (Finite (4/5))),
               (''task_details'', JObj ?details)]"
  have d: "decide_is_task ?m" by code_simp
  have x: "\<not> isl (extract_task_details (\<lambda>t. t) ?now ?m)" by code_simp
  have hp: "contains_any (lower ?m) high_priority_words" by code_simp
  from analyze_task_result[OF d x, of ?st]
  obtain r0 td0 where r0: "analyze_message (\<lambda>t. t) ?now ?st ?m = Inr r0"
    "task_details r0 = Some td0" by blast
  have g1: "dict_get ?res ''task_details'' JNull = JObj ?details" by (simp add: dict_get_def)
  have g2: "dict_get ?res ''is_task'' (JBool False) = JBool True" by (simp add: dict_get_def)
  have g3: "dict_get ?res ''confidence'' (JFloat (Finite 0)) = JFloat (Finite (4/5))"
    by (simp add: dict_get_def)
  have g4: "dict_get ?details ''priority'' (JStr ''medium'') = JStr ''urgent''"
    by (simp add: dict_get_def)
  have "\<exists>v ld. validate_result (\<lambda>j. []) (\<lambda>s. None) ?st ?res = Inr v \<and> v_task_details v = Some ld"
    by (simp add: validate_result_def g1 g2 g3 py_float_def Let_def)
  then obtain v0 ld0 where v0: "validate_result (\<lambda>j. []) (\<lambda>s. None) ?st ?res = Inr v0"
    "v_task_details v0 = Some ld0" by blast
  have lv: "llama_analyze_message (\<lambda>j. []) (\<lambda>s. None) ?st (Inr ?res) = v0"
    by (simp add: llama_analyze_message_def v0(1))
  note t = priority_range[where order = "\<lambda>t. t" and now = ?now and st = ?st
      and message = ?m and r = r0 and td = td0 and rp = "\<lambda>j. []" and fs = "\<lambda>s. None"
      and result = ?res and v = v0 and ld' = ld0 and details = ?details
      and parsed = "Inr ?res" and ld = ld0]
  from t r0 hp have a: "priority td0 = ''high'' \<and> priority td0 \<noteq> ''urgent''" by blast
  from t v0 g1 have "l_priority ld0 =
          (if dict_get ?details ''priority'' (JStr ''medium'')
                \<in> {JStr ''low'', JStr ''medium'', JStr ''high''}
           then dict_get ?details ''priority'' (JStr ''medium'') else JStr ''medium'')"
    by blast
  then have b: "l_priority ld0 = JStr ''medium''" by (simp add: g4)
  have l: "v_task_details (llama_analyze_message (\<lambda>j. []) (\<lambda>s. None) ?st (Inr ?res)) = Some ld0"
    by (simp add: lv v0(2))
  from t l have c: "l_priority ld0 \<in> {JStr ''low'', JStr ''medium'', JStr ''high''}" by blast
  show ?thesis using r0 a v0 b l c by blast
qed

section \<open>Properties of the orchestrator\<close>

lemma create_task_loop_map:
  "create_task_loop ms t acc = acc @ map (\<lambda>m. attempt m t) ms"
  by (induction ms arbitrary: acc) simp_all

lemma create_task_map: "create_task ms t = map (\<lambda>m. attempt m t) ms"
  by (simp add: create_task_def create_task_loop_map)

text \<open>
  Claim C1. Dispatch returns exactly one outcome per registered manager, in registration
  order (the platforms of the outcomes are the class names of the managers, in order).
  When the \<open>create_task\<close> of a manager \<open>m\<close> raises with message \<open>e\<close>, its outcome is the
  failure carrying \<open>e\<close>, it sits at the position of \<open>m\<close>, and the outcomes of the managers
  before and after it are exactly those of a dispatch without \<open>m\<close>.
\<close>

theorem create_task_isolation:
  assumes "manager_create_task m t = Inl e"
  shows "length (create_task (ms1 @ m # ms2) t) = length (ms1 @ m # ms2)
       \<and> map platform (create_task (ms1 @ m # ms2) t) = map class_name (ms1 @ m # ms2)
       \<and> create_task (ms1 @ m # ms2) t =
           create_task ms1 t
           @ [\<lparr>platform = class_name m, success = False, data = None, error = Some e\<rparr>]
           @ create_task ms2 t
       \<and> create_task (ms1 @ ms2) t = create_task ms1 t @ create_task ms2 t"
proof -
  have name: "\<And>x. platform (attempt x t) = class_name x"
    by (simp add: attempt_def split: sum.split)
  have fail: "attempt m t = \<lparr>platform = class_name m, success = False, data = None, error = Some e\<rparr>"
    using assms by (simp add: attempt_def)
  show ?thesis
    by (simp add: create_task_map fail name comp_def)
qed

theorem create_task_isolation_witness:
  "create_task
     [\<lparr>class_name = ''TodoistManager'', manager_create_task = (\<lambda>t::nat. Inl ''Failed to create Todoist task: 403'')\<rparr>,
      \<lparr>class_name = ''NotionManager'', manager_create_task = (\<lambda>t::nat. Inr (t + 1))\<rparr>] 7
   = [\<lparr>platform = ''TodoistManager'', success = False, data = None,
        error = Some ''Failed to create Todoist task: 403''\<rparr>,
      \<lparr>platform = ''NotionManager'', success = True, data = Some (8::nat), error = None\<rparr>]
   \<and> create_task
     [\<lparr>class_name = ''NotionManager'', manager_create_task = (\<lambda>t::nat. Inr (t + 1))\<rparr>] 7
   = [\<lparr>platform = ''NotionManager'', success = True, data = Some (8::nat), error = None\<rparr>]"
  using create_task_isolation
    [of "\<lparr>class_name = ''TodoistManager'', manager_create_task = (\<lambda>t::nat. Inl ''Failed to create Todoist task: 403'')\<rparr>"
        7 "''Failed to create Todoist task: 403''" "[]"
        "[\<lparr>class_name = ''NotionManager'', manager_create_task = (\<lambda>t::nat. Inr (t + 1))\<rparr>] :: (nat, nat) manager list"]
  by (simp add: create_task_def attempt_def)

text \<open>
  Claim C4, as the code has it. The Todoist manager is registered exactly when its API
  key is not empty. No Notion manager is ever registered, whatever the Notion key is:
  the list of managers holds Todoist managers only. Initialisation always returns a
  list and has no failing branch.
\<close>

theorem orchestrator_init_registers:
  "orchestrator_init cfg =
     (if todoist_api_key cfg = [] then [] else [TodoistManager (todoist_api_key cfg)])"
  by (simp add: orchestrator_init_def)

theorem orchestrator_init_registers_witness:
  "orchestrator_init \<lparr>openai_api_key = [], todoist_api_key = ''t0'', notion_api_key = ''n0'',
                      use_simple_analyzer = False\<rparr> = [TodoistManager ''t0'']
   \<and> orchestrator_init \<lparr>openai_api_key = [], todoist_api_key = [], notion_api_key = [],
                      use_simple_analyzer = False\<rparr> = []"
  using orchestrator_init_registers
    [of "\<lparr>openai_api_key = [], todoist_api_key = ''t0'', notion_api_key = ''n0'', use_simple_analyzer = False\<rparr>"]
    orchestrator_init_registers
    [of "\<lparr>openai_api_key = [], todoist_api_key = [], notion_api_key = [], use_simple_analyzer = False\<rparr>"]
  by simp

text \<open>
  The claim as written fails for the page-database backend: with the Notion credential
  present (and the Todoist one absent) nothing is registered.
\<close>

theorem orchestrator_init_notion_counterexample:
  "notion_api_key \<lparr>openai_api_key = [], todoist_api_key = [], notion_api_key = ''secret_abc'',
                   use_simple_analyzer = False\<rparr> \<noteq> []
   \<and> orchestrator_init \<lparr>openai_api_key = [], todoist_api_key = [], notion_api_key = ''secret_abc'',
                        use_simple_analyzer = False\<rparr> = []"
  by (simp add: orchestrator_init_def)

end
